theory Spec2Isabelle
  imports Main "HOL-Library.Sublist"
begin

section \<open>Strings and bytes\<close>

text \<open>
  A Go string is a sequence of bytes; it is modelled as a \<open>string\<close> (a list of
  \<open>char\<close>, one \<open>char\<close> per byte). \<open>byte c\<close> is the numeric value of a byte.
\<close>

definition byte :: "char \<Rightarrow> nat" where
  "byte c = of_char c"

definition dquote :: char where
  "dquote = CHR 0x22"

definition squote :: char where
  "squote = CHR 0x27"

definition newline :: char where
  "newline = CHR 0x0A"

text \<open>\<open>strings.HasPrefix\<close> and \<open>strings.TrimPrefix\<close>.\<close>

definition HasPrefix :: "string \<Rightarrow> string \<Rightarrow> bool" where
  "HasPrefix s p = (take (length p) s = p)"

definition HasSuffix :: "string \<Rightarrow> string \<Rightarrow> bool" where
  "HasSuffix s p = (length p \<le> length s \<and> drop (length s - length p) s = p)"

definition TrimPrefix :: "string \<Rightarrow> string \<Rightarrow> string" where
  "TrimPrefix s p = (if HasPrefix s p then drop (length p) s else s)"

text \<open>
  \<open>strings.Cut s sep\<close> for a one-byte separator: the text before the first
  occurrence, the text after it, and whether the separator was found.
\<close>

definition Cut :: "string \<Rightarrow> char \<Rightarrow> string \<times> string \<times> bool" where
  "Cut s sep =
     (case dropWhile (\<lambda>c. c \<noteq> sep) s of
        [] \<Rightarrow> (s, [], False)
      | _ # after \<Rightarrow> (takeWhile (\<lambda>c. c \<noteq> sep) s, after, True))"

text \<open>\<open>strings.Index\<close> with \<open>None\<close> for Go's \<open>-1\<close>.\<close>

fun Index :: "string \<Rightarrow> string \<Rightarrow> nat option" where
  "Index [] sep = (if sep = [] then Some 0 else None)"
| "Index (c # s) sep =
     (if HasPrefix (c # s) sep then Some 0 else map_option Suc (Index s sep))"

text \<open>\<open>strings.LastIndex\<close> for a one-byte separator.\<close>

definition LastIndex :: "string \<Rightarrow> char \<Rightarrow> nat option" where
  "LastIndex s sep =
     (case Index (rev s) [sep] of
        None \<Rightarrow> None
      | Some j \<Rightarrow> Some (length s - 1 - j))"

definition Contains :: "string \<Rightarrow> char \<Rightarrow> bool" where
  "Contains s c = (c \<in> set s)"

definition isLower :: "char \<Rightarrow> bool" where
  "isLower c = (byte CHR ''a'' \<le> byte c \<and> byte c \<le> byte CHR ''z'')"

definition isUpper :: "char \<Rightarrow> bool" where
  "isUpper c = (byte CHR ''A'' \<le> byte c \<and> byte c \<le> byte CHR ''Z'')"

definition isDigit :: "char \<Rightarrow> bool" where
  "isDigit c = (byte CHR ''0'' \<le> byte c \<and> byte c \<le> byte CHR ''9'')"

text \<open>\<open>strings.ToLower\<close>, on the ASCII letters (a scheme has no other letters).\<close>

definition ToLower :: "string \<Rightarrow> string" where
  "ToLower s = map (\<lambda>c. if isUpper c then char_of (byte c + 32) else c) s"


section \<open>The standard library's URL type\<close>

text \<open>
  \<open>removeQueryParams\<close> is \<open>url.Parse\<close>, one field assignment and \<open>URL.String\<close>. What it
  returns is decided by these two functions of Go's \<open>net/url\<close> package (Go 1.22, the
  version \<open>go.mod\<close> names), which are transcribed here function by function.
\<close>

record Userinfo =
  username :: string
  password :: string
  passwordSet :: bool

record URL =
  Scheme :: string
  Opaque :: string
  User :: "Userinfo option"
  Host :: string
  Path :: string
  RawPath :: string
  OmitHost :: bool
  ForceQuery :: bool
  RawQuery :: string
  Fragment :: string
  RawFragment :: string

definition emptyURL :: URL where
  "emptyURL = \<lparr>Scheme = [], Opaque = [], User = None, Host = [], Path = [], RawPath = [],
     OmitHost = False, ForceQuery = False, RawQuery = [], Fragment = [], RawFragment = []\<rparr>"

datatype url_error =
    InvalidControlCharacter
  | MissingProtocolScheme
  | ColonInFirstPathSegment
  | EscapeError string
  | InvalidHostError string
  | InvalidPort string
  | MissingBracket
  | InvalidUserinfo

datatype encoding =
    encodePath
  | encodePathSegment
  | encodeHost
  | encodeZone
  | encodeUserPassword
  | encodeQueryComponent
  | encodeFragment

definition ishex :: "char \<Rightarrow> bool" where
  "ishex c = (isDigit c
     \<or> (byte CHR ''a'' \<le> byte c \<and> byte c \<le> byte CHR ''f'')
     \<or> (byte CHR ''A'' \<le> byte c \<and> byte c \<le> byte CHR ''F''))"

definition unhex :: "char \<Rightarrow> nat" where
  "unhex c =
     (if isDigit c then byte c - byte CHR ''0''
      else if byte CHR ''a'' \<le> byte c \<and> byte c \<le> byte CHR ''f'' then byte c - byte CHR ''a'' + 10
      else if byte CHR ''A'' \<le> byte c \<and> byte c \<le> byte CHR ''F'' then byte c - byte CHR ''A'' + 10
      else 0)"

definition upperhex :: "nat \<Rightarrow> char" where
  "upperhex n = ''0123456789ABCDEF'' ! n"

definition shouldEscape :: "char \<Rightarrow> encoding \<Rightarrow> bool" where
  "shouldEscape c mode =
     (if isLower c \<or> isUpper c \<or> isDigit c then False
      else if (mode = encodeHost \<or> mode = encodeZone)
              \<and> c \<in> set (''!$&()*+,;=:[]<>'' @ [squote, dquote]) then False
      else if c \<in> set ''-_.~'' then False
      else if c \<in> set ''$&+,/:;=?@'' \<and> mode = encodePath then c = CHR ''?''
      else if c \<in> set ''$&+,/:;=?@'' \<and> mode = encodePathSegment then c \<in> set ''/;,?''
      else if c \<in> set ''$&+,/:;=?@'' \<and> mode = encodeUserPassword then c \<in> set ''@/?:''
      else if c \<in> set ''$&+,/:;=?@'' \<and> mode = encodeQueryComponent then True
      else if c \<in> set ''$&+,/:;=?@'' \<and> mode = encodeFragment then False
      else if mode = encodeFragment \<and> c \<in> set ''!()*'' then False
      else True)"

text \<open>
  \<open>unescape\<close> has two passes in Go: the first checks that every \<open>%\<close> starts a
  well-formed escape allowed in the given part of the URL, the second decodes.
\<close>

fun unescape_check :: "encoding \<Rightarrow> string \<Rightarrow> url_error option" where
  "unescape_check mode [] = None"
| "unescape_check mode (c # s) =
     (if c = CHR ''%'' then
        (case s of
           a # b # rest \<Rightarrow>
             if \<not> ishex a \<or> \<not> ishex b then Some (EscapeError (take 3 (c # s)))
             else if mode = encodeHost \<and> unhex a < 8 \<and> [c, a, b] \<noteq> ''%25''
               then Some (EscapeError [c, a, b])
             else if mode = encodeZone \<and> [c, a, b] \<noteq> ''%25''
                     \<and> char_of (unhex a * 16 + unhex b) \<noteq> CHR '' ''
                     \<and> shouldEscape (char_of (unhex a * 16 + unhex b)) encodeHost
               then Some (EscapeError [c, a, b])
             else unescape_check mode rest
         | _ \<Rightarrow> Some (EscapeError (take 3 (c # s))))
      else if (mode = encodeHost \<or> mode = encodeZone) \<and> byte c < 0x80
              \<and> shouldEscape c encodeHost
        then Some (InvalidHostError [c])
      else unescape_check mode s)"

fun unescape_decode :: "encoding \<Rightarrow> string \<Rightarrow> string" where
  "unescape_decode mode [] = []"
| "unescape_decode mode (c # s) =
     (if c = CHR ''%'' then
        (case s of
           a # b # rest \<Rightarrow> char_of (unhex a * 16 + unhex b) # unescape_decode mode rest
         | _ \<Rightarrow> c # unescape_decode mode s)
      else if c = CHR ''+'' \<and> mode = encodeQueryComponent then CHR '' '' # unescape_decode mode s
      else c # unescape_decode mode s)"

definition unescape :: "string \<Rightarrow> encoding \<Rightarrow> url_error + string" where
  "unescape s mode =
     (case unescape_check mode s of
        Some e \<Rightarrow> Inl e
      | None \<Rightarrow> Inr (unescape_decode mode s))"

definition escape :: "string \<Rightarrow> encoding \<Rightarrow> string" where
  "escape s mode =
     concat (map (\<lambda>c.
       if shouldEscape c mode then
         (if c = CHR '' '' \<and> mode = encodeQueryComponent then ''+''
          else [CHR ''%'', upperhex (byte c div 16), upperhex (byte c mod 16)])
       else [c]) s)"

definition stringContainsCTLByte :: "string \<Rightarrow> bool" where
  "stringContainsCTLByte s = list_ex (\<lambda>c. byte c < 0x20 \<or> byte c = 0x7f) s"

text \<open>
  \<open>getScheme\<close> scans for the first byte that is not a letter; the accumulator \<open>i\<close> is
  the loop index, \<open>raw\<close> the whole input.
\<close>

fun getScheme_loop :: "string \<Rightarrow> nat \<Rightarrow> string \<Rightarrow> url_error + (string \<times> string)" where
  "getScheme_loop raw i [] = Inr ([], raw)"
| "getScheme_loop raw i (c # s) =
     (if isLower c \<or> isUpper c then getScheme_loop raw (Suc i) s
      else if isDigit c \<or> c = CHR ''+'' \<or> c = CHR ''-'' \<or> c = CHR ''.'' then
        (if i = 0 then Inr ([], raw) else getScheme_loop raw (Suc i) s)
      else if c = CHR '':'' then
        (if i = 0 then Inl MissingProtocolScheme else Inr (take i raw, drop (Suc i) raw))
      else Inr ([], raw))"

definition getScheme :: "string \<Rightarrow> url_error + (string \<times> string)" where
  "getScheme rawURL = getScheme_loop rawURL 0 rawURL"

definition validOptionalPort :: "string \<Rightarrow> bool" where
  "validOptionalPort port =
     (case port of
        [] \<Rightarrow> True
      | c # ds \<Rightarrow> c = CHR '':'' \<and> list_all isDigit ds)"

definition validUserinfo :: "string \<Rightarrow> bool" where
  "validUserinfo s =
     list_all (\<lambda>r. isUpper r \<or> isLower r \<or> isDigit r
                 \<or> r \<in> set (''-._:~!$&()*+,;=%@'' @ [squote])) s"

definition parseHost :: "string \<Rightarrow> url_error + string" where
  "parseHost host =
     (if HasPrefix host ''['' then
        (case LastIndex host CHR '']'' of
           None \<Rightarrow> Inl MissingBracket
         | Some i \<Rightarrow>
             if \<not> validOptionalPort (drop (Suc i) host) then Inl (InvalidPort (drop (Suc i) host))
             else
               (case Index (take i host) ''%25'' of
                  Some zone \<Rightarrow>
                    (case unescape (take zone host) encodeHost of
                       Inl e \<Rightarrow> Inl e
                     | Inr host1 \<Rightarrow>
                         (case unescape (drop zone (take i host)) encodeZone of
                            Inl e \<Rightarrow> Inl e
                          | Inr host2 \<Rightarrow>
                              (case unescape (drop i host) encodeHost of
                                 Inl e \<Rightarrow> Inl e
                               | Inr host3 \<Rightarrow> Inr (host1 @ host2 @ host3))))
                | None \<Rightarrow> unescape host encodeHost))
      else
        (case LastIndex host CHR '':'' of
           Some i \<Rightarrow>
             if \<not> validOptionalPort (drop i host) then Inl (InvalidPort (drop i host))
             else unescape host encodeHost
         | None \<Rightarrow> unescape host encodeHost))"

definition parseUserinfo :: "string \<Rightarrow> url_error + Userinfo" where
  "parseUserinfo userinfo =
     (if \<not> validUserinfo userinfo then Inl InvalidUserinfo
      else if \<not> Contains userinfo CHR '':'' then
        (case unescape userinfo encodeUserPassword of
           Inl e \<Rightarrow> Inl e
         | Inr u \<Rightarrow> Inr \<lparr>username = u, password = [], passwordSet = False\<rparr>)
      else
        (case Cut userinfo CHR '':'' of
           (uname, pass, _) \<Rightarrow>
             (case unescape uname encodeUserPassword of
                Inl e \<Rightarrow> Inl e
              | Inr u \<Rightarrow>
                  (case unescape pass encodeUserPassword of
                     Inl e \<Rightarrow> Inl e
                   | Inr p \<Rightarrow> Inr \<lparr>username = u, password = p, passwordSet = True\<rparr>))))"

definition parseAuthority :: "string \<Rightarrow> url_error + (Userinfo option \<times> string)" where
  "parseAuthority authority =
     (case LastIndex authority CHR ''@'' of
        None \<Rightarrow>
          (case parseHost authority of
             Inl e \<Rightarrow> Inl e
           | Inr h \<Rightarrow> Inr (None, h))
      | Some i \<Rightarrow>
          (case parseHost (drop (Suc i) authority) of
             Inl e \<Rightarrow> Inl e
           | Inr h \<Rightarrow>
               (case parseUserinfo (take i authority) of
                  Inl e \<Rightarrow> Inl e
                | Inr ui \<Rightarrow> Inr (Some ui, h))))"

definition setPath :: "URL \<Rightarrow> string \<Rightarrow> url_error + URL" where
  "setPath u p =
     (case unescape p encodePath of
        Inl e \<Rightarrow> Inl e
      | Inr path \<Rightarrow>
          Inr (u\<lparr>Path := path, RawPath := (if p = escape path encodePath then [] else p)\<rparr>))"

definition setFragment :: "URL \<Rightarrow> string \<Rightarrow> url_error + URL" where
  "setFragment u f =
     (case unescape f encodeFragment of
        Inl e \<Rightarrow> Inl e
      | Inr frag \<Rightarrow>
          Inr (u\<lparr>Fragment := frag,
                 RawFragment := (if f = escape frag encodeFragment then [] else f)\<rparr>))"

text \<open>
  The unexported \<open>parse\<close>, called by \<open>url.Parse\<close> with \<open>viaRequest = false\<close> on the text
  before the first \<open>#\<close>. It is cut in three here: \<open>parse_query\<close> splits the query off,
  \<open>parse_rest\<close> is the rest of the function on what remains, and
  \<open>parse_authority_path\<close> is its last step.
\<close>

definition parse_query :: "URL \<Rightarrow> string \<Rightarrow> URL \<times> string" where
  "parse_query u rest =
     (if HasSuffix rest ''?'' \<and> count_list rest CHR ''?'' = 1
      then (u\<lparr>ForceQuery := True\<rparr>, butlast rest)
      else (case Cut rest CHR ''?'' of (r, q, _) \<Rightarrow> (u\<lparr>RawQuery := q\<rparr>, r)))"

definition parse_authority_path :: "URL \<Rightarrow> string \<Rightarrow> url_error + URL" where
  "parse_authority_path u rest =
     (if (Scheme u \<noteq> [] \<or> \<not> HasPrefix rest ''///'') \<and> HasPrefix rest ''//'' then
        (let a = drop 2 rest;
             authority = (case Index a ''/'' of None \<Rightarrow> a | Some i \<Rightarrow> take i a);
             rest' = (case Index a ''/'' of None \<Rightarrow> [] | Some i \<Rightarrow> drop i a)
         in case parseAuthority authority of
              Inl e \<Rightarrow> Inl e
            | Inr (ui, h) \<Rightarrow> setPath (u\<lparr>User := ui, Host := h\<rparr>) rest')
      else if Scheme u \<noteq> [] \<and> HasPrefix rest ''/'' then setPath (u\<lparr>OmitHost := True\<rparr>) rest
      else setPath u rest)"

definition parse_rest :: "URL \<Rightarrow> string \<Rightarrow> url_error + URL" where
  "parse_rest u rest =
     (if \<not> HasPrefix rest ''/'' \<and> Scheme u \<noteq> [] then Inr (u\<lparr>Opaque := rest\<rparr>)
      else if \<not> HasPrefix rest ''/'' \<and> Contains (fst (Cut rest CHR ''/'')) CHR '':''
        then Inl ColonInFirstPathSegment
      else parse_authority_path u rest)"

definition parse :: "string \<Rightarrow> url_error + URL" where
  "parse rawURL =
     (if stringContainsCTLByte rawURL then Inl InvalidControlCharacter
      else if rawURL = ''*'' then Inr (emptyURL\<lparr>Path := ''*''\<rparr>)
      else
        (case getScheme rawURL of
           Inl e \<Rightarrow> Inl e
         | Inr (scheme, rest0) \<Rightarrow>
             (case parse_query (emptyURL\<lparr>Scheme := ToLower scheme\<rparr>) rest0 of
                (u, rest) \<Rightarrow> parse_rest u rest)))"

definition url_Parse :: "string \<Rightarrow> url_error + URL" where
  "url_Parse rawURL =
     (case Cut rawURL CHR ''#'' of
        (u, frag, _) \<Rightarrow>
          (case parse u of
             Inl e \<Rightarrow> Inl e
           | Inr url \<Rightarrow> if frag = [] then Inr url else setFragment url frag))"

definition validEncoded :: "string \<Rightarrow> encoding \<Rightarrow> bool" where
  "validEncoded s mode =
     list_all (\<lambda>c. c \<in> set (''!$&()*+,;=:@[]%'' @ [squote]) \<or> \<not> shouldEscape c mode) s"

definition EscapedPath :: "URL \<Rightarrow> string" where
  "EscapedPath u =
     (if RawPath u \<noteq> [] \<and> validEncoded (RawPath u) encodePath
         \<and> unescape (RawPath u) encodePath = Inr (Path u) then RawPath u
      else if Path u = ''*'' then ''*''
      else escape (Path u) encodePath)"

definition EscapedFragment :: "URL \<Rightarrow> string" where
  "EscapedFragment u =
     (if RawFragment u \<noteq> [] \<and> validEncoded (RawFragment u) encodeFragment
         \<and> unescape (RawFragment u) encodeFragment = Inr (Fragment u) then RawFragment u
      else escape (Fragment u) encodeFragment)"

definition Userinfo_String :: "Userinfo \<Rightarrow> string" where
  "Userinfo_String ui =
     escape (username ui) encodeUserPassword
     @ (if passwordSet ui then '':'' @ escape (password ui) encodeUserPassword else [])"

text \<open>
  \<open>URL.String\<close> writes into a buffer; the three definitions below are the buffer after
  the scheme, after the authority and after the path.
\<close>

definition String_scheme :: "URL \<Rightarrow> string" where
  "String_scheme u = (if Scheme u \<noteq> [] then Scheme u @ '':'' else [])"

definition String_authority :: "URL \<Rightarrow> string" where
  "String_authority u =
     (if Scheme u \<noteq> [] \<or> Host u \<noteq> [] \<or> User u \<noteq> None then
        (if OmitHost u \<and> Host u = [] \<and> User u = None then []
         else
           (if Host u \<noteq> [] \<or> Path u \<noteq> [] \<or> User u \<noteq> None then ''//'' else [])
           @ (case User u of None \<Rightarrow> [] | Some ui \<Rightarrow> Userinfo_String ui @ ''@'')
           @ (if Host u \<noteq> [] then escape (Host u) encodeHost else []))
      else [])"

definition String_path :: "URL \<Rightarrow> string" where
  "String_path u =
     (let buf = String_scheme u @ String_authority u;
          path = EscapedPath u;
          buf1 = buf @ (if path \<noteq> [] \<and> hd path \<noteq> CHR ''/'' \<and> Host u \<noteq> [] then ''/'' else []);
          buf2 = buf1 @ (if buf1 = [] \<and> Contains (fst (Cut path CHR ''/'')) CHR '':''
                         then ''./'' else [])
      in buf2 @ path)"

definition URL_String :: "URL \<Rightarrow> string" where
  "URL_String u =
     (if Opaque u \<noteq> [] then String_scheme u @ Opaque u else String_path u)
     @ (if ForceQuery u \<or> RawQuery u \<noteq> [] then ''?'' @ RawQuery u else [])
     @ (if Fragment u \<noteq> [] then ''#'' @ EscapedFragment u else [])"


section \<open>Configuration, requests and responses\<close>

text \<open>
  The package-level variables \<open>domain\<close> and \<open>adminKey\<close> are set once in \<open>main\<close> from
  \<open>config.properties\<close> and only read by the handlers.
\<close>

record config =
  domain :: string
  adminKey :: string

text \<open>
  What a handler reads from \<open>*http.Request\<close>: the method (no handler looks at it),
  \<open>r.URL.Path\<close>, \<open>r.FormValue("long_url")\<close> and \<open>r.Header.Get("Authorization")\<close>; the last
  two are the empty string when the field or header is absent.
\<close>

record request =
  Method :: string
  URL_Path :: string
  FormValue_long_url :: string
  Header_Authorization :: string

text \<open>
  A response is the call the handler makes on its \<open>http.ResponseWriter\<close>:
  \<open>http.NotFound\<close>, \<open>http.Error\<close> with its message and code, \<open>http.Redirect\<close> with its
  target and code, or a body written with \<open>fmt.Fprintf\<close> after the headers set with
  \<open>w.Header().Set\<close> and an optional \<open>w.WriteHeader\<close>. \<open>Panicked\<close> is a handler that
  panics before writing anything: \<open>net/http\<close> recovers and closes the connection.
\<close>

datatype response =
    http_NotFound
  | http_Error string int
  | http_Redirect string int
  | Written "(string \<times> string) list" "int option" string
  | Panicked

definition StatusBadRequest :: int where "StatusBadRequest = 400"
definition StatusUnauthorized :: int where "StatusUnauthorized = 401"
definition StatusNotFound :: int where "StatusNotFound = 404"
definition StatusInternalServerError :: int where "StatusInternalServerError = 500"
definition StatusMovedPermanently :: int where "StatusMovedPermanently = 301"
definition StatusOK :: int where "StatusOK = 200"

text \<open>
  The status line of a response. A body written with no \<open>WriteHeader\<close> call is sent
  with status 200 by \<open>net/http\<close>; a panicking handler sends no status.
\<close>

fun status :: "response \<Rightarrow> int option" where
  "status http_NotFound = Some StatusNotFound"
| "status (http_Error msg code) = Some code"
| "status (http_Redirect target code) = Some code"
| "status (Written hdrs None b) = Some StatusOK"
| "status (Written hdrs (Some code) b) = Some code"
| "status Panicked = None"


section \<open>The table \<open>short_urls\<close>\<close>

record ShortURL =
  ID :: int
  ShortCode :: string
  LongURL :: string

text \<open>
  \<open>initDB\<close> creates the table with an \<open>AUTO_INCREMENT\<close> key \<open>id\<close>, a \<open>UNIQUE\<close> column
  \<open>short_code\<close> and a column \<open>long_url\<close> with no constraint. The datastore is modelled as
  the rows in insertion order and the next \<open>AUTO_INCREMENT\<close> value. Column values are
  compared as byte strings and are taken to fit their columns; the collation and the
  column sizes of the MySQL server are outside the model.
\<close>

record database =
  rows :: "ShortURL list"
  nextID :: int

definition emptyDB :: database where
  "emptyDB = \<lparr>rows = [], nextID = 1\<rparr>"

text \<open>
  \<open>ErrNoRows\<close> is \<open>sql.ErrNoRows\<close>; \<open>ErrOther\<close> is every other error a statement can
  return (a lost connection, a driver error, a violated constraint).
\<close>

datatype sql_error = ErrNoRows | ErrOther

text \<open>
  The four statements. The first argument says whether the datastore fails on this
  statement for a reason of its own; it is chosen by the environment.

  \<open>SELECT id, short_code, long_url FROM short_urls WHERE short_code = ?\<close> with \<open>Scan\<close>:
\<close>

definition select_by_short_code :: "bool \<Rightarrow> database \<Rightarrow> string \<Rightarrow> sql_error + ShortURL" where
  "select_by_short_code fails db code =
     (if fails then Inl ErrOther
      else case find (\<lambda>r. ShortCode r = code) (rows db) of
             None \<Rightarrow> Inl ErrNoRows
           | Some r \<Rightarrow> Inr r)"

text \<open>\<open>SELECT short_code FROM short_urls WHERE long_url = ?\<close> with \<open>Scan\<close>:\<close>

definition select_short_code_by_long_url :: "bool \<Rightarrow> database \<Rightarrow> string \<Rightarrow> sql_error + string" where
  "select_short_code_by_long_url fails db url =
     (if fails then Inl ErrOther
      else case find (\<lambda>r. LongURL r = url) (rows db) of
             None \<Rightarrow> Inl ErrNoRows
           | Some r \<Rightarrow> Inr (ShortCode r))"

text \<open>
  \<open>INSERT INTO short_urls (short_code, long_url) VALUES (?, ?)\<close>: the column
  \<open>short_code\<close> is \<open>UNIQUE\<close>, so a code that is already stored is refused.
\<close>

definition insert_row :: "bool \<Rightarrow> database \<Rightarrow> string \<Rightarrow> string \<Rightarrow> sql_error + database" where
  "insert_row fails db code url =
     (if fails \<or> list_ex (\<lambda>r. ShortCode r = code) (rows db) then Inl ErrOther
      else Inr \<lparr>rows = rows db @ [\<lparr>ID = nextID db, ShortCode = code, LongURL = url\<rparr>],
                nextID = nextID db + 1\<rparr>)"

text \<open>\<open>DELETE FROM short_urls WHERE short_code = ?\<close>:\<close>

definition delete_by_short_code :: "bool \<Rightarrow> database \<Rightarrow> string \<Rightarrow> sql_error + database" where
  "delete_by_short_code fails db code =
     (if fails then Inl ErrOther
      else Inr (db\<lparr>rows := filter (\<lambda>r. ShortCode r \<noteq> code) (rows db)\<rparr>))"


section \<open>The environment of a request\<close>

text \<open>
  \<open>http_Response\<close> is what \<open>getFinalURL\<close> reads from the probe's response: the status
  code and the value of \<open>resp.Location()\<close>, which is an error when the header is
  missing or does not parse.
\<close>

datatype probe_error = HeadFailed | ErrNoLocation | LocationInvalid

record http_Response =
  StatusCode :: int
  Location :: "probe_error + URL"

text \<open>
  Everything a handler gets from outside the process: \<open>Transport\<close> is the network as
  seen by the client's transport, the first response to a \<open>HEAD\<close> request for a URL or
  the error of the attempt (redirects are not followed: \<open>CheckRedirect\<close> returns
  \<open>http.ErrUseLastResponse\<close>); \<open>MustGenerate\<close> is the identifier \<open>shortid.MustGenerate\<close>
  returns, or \<open>None\<close> when it panics; \<open>queryFails\<close> and \<open>execFails\<close> say whether the
  datastore fails on the handler's \<open>QueryRow\<close> and \<open>Exec\<close>.
\<close>

record env =
  Transport :: "string \<Rightarrow> probe_error + http_Response"
  MustGenerate :: "string option"
  queryFails :: bool
  execFails :: bool


section \<open>The URL normalizer\<close>

text \<open>
  \<open>client.Head\<close> builds its request with \<open>http.NewRequest\<close>, which parses the URL with
  \<open>url.Parse\<close> and returns the error of the parse; only a URL that parses is handed to
  the transport.
\<close>

definition client_Head :: "(string \<Rightarrow> probe_error + http_Response) \<Rightarrow> string \<Rightarrow> probe_error + http_Response" where
  "client_Head transport urlStr =
     (case url_Parse urlStr of
        Inl err \<Rightarrow> Inl HeadFailed
      | Inr u \<Rightarrow> transport urlStr)"

definition isRedirect :: "int \<Rightarrow> bool" where
  "isRedirect statusCode = (statusCode \<ge> 300 \<and> statusCode \<le> 399)"

definition getFinalURL :: "(string \<Rightarrow> probe_error + http_Response) \<Rightarrow> string \<Rightarrow> probe_error + string" where
  "getFinalURL head urlStr =
     (case head urlStr of
        Inl err \<Rightarrow> Inl err
      | Inr resp \<Rightarrow>
          if isRedirect (StatusCode resp) then
            (case Location resp of
               Inl err \<Rightarrow> Inl err
             | Inr locationURL \<Rightarrow> Inr (URL_String locationURL))
          else Inr urlStr)"

definition removeQueryParams :: "string \<Rightarrow> string" where
  "removeQueryParams urlStr =
     (case url_Parse urlStr of
        Inl err \<Rightarrow> urlStr
      | Inr parsedURL \<Rightarrow> URL_String (parsedURL\<lparr>RawQuery := []\<rparr>))"

definition generateShortCode :: "env \<Rightarrow> string option" where
  "generateShortCode e = MustGenerate e"


section \<open>The handlers\<close>

definition handleShortURL :: "env \<Rightarrow> database \<Rightarrow> request \<Rightarrow> response \<times> database" where
  "handleShortURL e db r =
     (let shortCode = TrimPrefix (URL_Path r) ''/'' in
      if shortCode = [] then (http_NotFound, db)
      else
        (case select_by_short_code (queryFails e) db shortCode of
           Inl err \<Rightarrow> (http_NotFound, db)
         | Inr shortURL \<Rightarrow> (http_Redirect (LongURL shortURL) StatusMovedPermanently, db)))"

text \<open>
  \<open>handleCreateShortURL\<close> of \<open>main.go\<close>. The mutex around the lookup and the insert
  has no effect on a single request and is not modelled.
\<close>

definition handleCreateShortURL :: "config \<Rightarrow> env \<Rightarrow> database \<Rightarrow> request \<Rightarrow> response \<times> database" where
  "handleCreateShortURL cfg e db r =
     (let longURL = FormValue_long_url r in
      if longURL = [] then (http_Error ''Missing long_url parameter'' StatusBadRequest, db)
      else
        (case getFinalURL (client_Head (Transport e)) longURL of
           Inl err \<Rightarrow> (http_Error ''Failed to resolve redirection'' StatusInternalServerError, db)
         | Inr finalURL \<Rightarrow>
             (let cleanURL = removeQueryParams finalURL in
              case generateShortCode e of
                None \<Rightarrow> (Panicked, db)
              | Some shortCode \<Rightarrow>
                  (case select_short_code_by_long_url (queryFails e) db cleanURL of
                     Inr existingShortCode \<Rightarrow>
                       (Written [] None
                          (''Short URL already exists: '' @ domain cfg @ existingShortCode @ [newline]),
                        db)
                   | Inl ErrOther \<Rightarrow>
                       (http_Error ''Failed to check for existing short URL''
                          StatusInternalServerError, db)
                   | Inl ErrNoRows \<Rightarrow>
                       (case insert_row (execFails e) db shortCode cleanURL of
                          Inl err \<Rightarrow>
                            (http_Error ''Failed to create short URL'' StatusInternalServerError, db)
                        | Inr db' \<Rightarrow>
                            (Written [] None
                               (''Short URL created: '' @ domain cfg @ shortCode @ [newline]),
                             db'))))))"

text \<open>
  \<open>handleCreateShortURL\<close> of the second source file (\<open>unnamed/part_000\<close>): the same
  steps, with JSON bodies and a slash between the domain and the code.
\<close>

definition json_error :: "string \<Rightarrow> string" where
  "json_error msg = ''{'' @ [dquote] @ ''error'' @ [dquote] @ '': '' @ [dquote] @ msg @ [dquote] @ ''}''"

definition json_short_url :: "string \<Rightarrow> string" where
  "json_short_url u =
     ''{'' @ [dquote] @ ''short_url'' @ [dquote] @ '': '' @ [dquote] @ u @ [dquote] @ ''}''"

definition handleCreateShortURL_part_000 :: "config \<Rightarrow> env \<Rightarrow> database \<Rightarrow> request \<Rightarrow> response \<times> database" where
  "handleCreateShortURL_part_000 cfg e db r =
     (let longURL = FormValue_long_url r in
      if longURL = [] then
        (http_Error (json_error ''Missing long_url parameter'') StatusBadRequest, db)
      else
        (case getFinalURL (client_Head (Transport e)) longURL of
           Inl err \<Rightarrow>
             (http_Error (json_error ''Failed to resolve redirection'') StatusInternalServerError, db)
         | Inr finalURL \<Rightarrow>
             (let cleanURL = removeQueryParams finalURL in
              case generateShortCode e of
                None \<Rightarrow> (Panicked, db)
              | Some shortCode \<Rightarrow>
                  (case select_short_code_by_long_url (queryFails e) db cleanURL of
                     Inr existingShortCode \<Rightarrow>
                       (Written [(''Content-Type'', ''application/json'')] None
                          (json_short_url (domain cfg @ ''/'' @ existingShortCode)),
                        db)
                   | Inl ErrOther \<Rightarrow>
                       (http_Error (json_error ''Failed to check for existing short URL'')
                          StatusInternalServerError, db)
                   | Inl ErrNoRows \<Rightarrow>
                       (case insert_row (execFails e) db shortCode cleanURL of
                          Inl err \<Rightarrow>
                            (http_Error (json_error ''Failed to create short URL'')
                               StatusInternalServerError, db)
                        | Inr db' \<Rightarrow>
                            (Written [(''Content-Type'', ''application/json'')] None
                               (json_short_url (domain cfg @ ''/'' @ shortCode)),
                             db'))))))"

definition handleDeleteShortURL :: "config \<Rightarrow> env \<Rightarrow> database \<Rightarrow> request \<Rightarrow> response \<times> database" where
  "handleDeleteShortURL cfg e db r =
     (let shortCode = TrimPrefix (URL_Path r) ''/api/delete/'';
          key = Header_Authorization r in
      if key \<noteq> adminKey cfg then (http_Error ''Unauthorized'' StatusUnauthorized, db)
      else if shortCode = [] then (http_NotFound, db)
      else
        (case delete_by_short_code (execFails e) db shortCode of
           Inl err \<Rightarrow> (http_Error ''Failed to delete short URL'' StatusInternalServerError, db)
         | Inr db' \<Rightarrow>
             (Written [] (Some StatusOK) (''Short URL deleted: '' @ domain cfg @ shortCode @ [newline]),
              db')))"


section \<open>Sequences of requests\<close>

text \<open>
  The server handles requests one after the other, each with its own environment.
  \<open>run\<close> is the table after a sequence of requests, starting from the empty table.
  Both versions of the create handler are requests of their own.
\<close>

datatype event =
    RedirectRequest env request
  | CreateRequest env request
  | CreateRequest_part_000 env request
  | DeleteRequest env request

fun step :: "config \<Rightarrow> database \<Rightarrow> event \<Rightarrow> database" where
  "step cfg db (RedirectRequest e r) = snd (handleShortURL e db r)"
| "step cfg db (CreateRequest e r) = snd (handleCreateShortURL cfg e db r)"
| "step cfg db (CreateRequest_part_000 e r) = snd (handleCreateShortURL_part_000 cfg e db r)"
| "step cfg db (DeleteRequest e r) = snd (handleDeleteShortURL cfg e db r)"

definition run :: "config \<Rightarrow> event list \<Rightarrow> database" where
  "run cfg evs = foldl (step cfg) emptyDB evs"


text \<open>
  The two uniqueness properties of a table: no two rows with the same \<open>long_url\<close>, and
  no two rows with the same \<open>short_code\<close>.
\<close>

definition unique_rows :: "database \<Rightarrow> bool" where
  "unique_rows db = (distinct (map LongURL (rows db)) \<and> distinct (map ShortCode (rows db)))"


section \<open>Example inputs\<close>

text \<open>Concrete configurations, environments and requests on which the theorems are run.\<close>

definition cfg0 :: config where
  "cfg0 = \<lparr>domain = ''http://localhost'', adminKey = ''DEFAULT_KEY''\<rparr>"

text \<open>
  A network in which every \<open>http\<close> or \<open>https\<close> URL with a host answers 200; the
  transport refuses every other request.
\<close>

definition ok200 :: "string \<Rightarrow> probe_error + http_Response" where
  "ok200 u =
     (case url_Parse u of
        Inl err \<Rightarrow> Inl HeadFailed
      | Inr p \<Rightarrow>
          if (Scheme p = ''http'' \<or> Scheme p = ''https'') \<and> Host p \<noteq> []
          then Inr \<lparr>StatusCode = 200, Location = Inl ErrNoLocation\<rparr>
          else Inl HeadFailed)"

definition env_ok :: "string \<Rightarrow> env" where
  "env_ok code = \<lparr>Transport = ok200, MustGenerate = Some code, queryFails = False, execFails = False\<rparr>"

definition env_db_down :: env where
  "env_db_down = \<lparr>Transport = ok200, MustGenerate = Some ''Zx3kLm9Qa'', queryFails = True, execFails = True\<rparr>"

definition get_req :: "string \<Rightarrow> request" where
  "get_req p = \<lparr>Method = ''GET'', URL_Path = p, FormValue_long_url = [], Header_Authorization = []\<rparr>"

definition create_req :: "string \<Rightarrow> request" where
  "create_req u = \<lparr>Method = ''POST'', URL_Path = ''/api/create'', FormValue_long_url = u,
     Header_Authorization = []\<rparr>"

definition delete_req :: "string \<Rightarrow> string \<Rightarrow> request" where
  "delete_req code key = \<lparr>Method = ''DELETE'', URL_Path = ''/api/delete/'' @ code,
     FormValue_long_url = [], Header_Authorization = key\<rparr>"

definition db1 :: database where
  "db1 = \<lparr>rows = [\<lparr>ID = 1, ShortCode = ''abc'', LongURL = ''http://example.com/''\<rparr>], nextID = 2\<rparr>"


definition page_url :: URL where
  "page_url = emptyURL\<lparr>Scheme := ''http'', Host := ''example.com'', Path := ''/page''\<rparr>"

text \<open>A table with two rows for one URL.\<close>

definition db_dup :: database where
  "db_dup = \<lparr>rows = [\<lparr>ID = 1, ShortCode = ''abc'', LongURL = ''http://example.com/page''\<rparr>,
                      \<lparr>ID = 2, ShortCode = ''abd'', LongURL = ''http://example.com/page''\<rparr>],
             nextID = 3\<rparr>"

definition target_url :: URL where
  "target_url = emptyURL\<lparr>Scheme := ''http'', Host := ''target.example'', Path := ''/''\<rparr>"

definition further_url :: URL where
  "further_url = emptyURL\<lparr>Scheme := ''http'', Host := ''further.example'', Path := ''/''\<rparr>"

text \<open>A network with a chain of two redirects.\<close>

definition redirecting :: "string \<Rightarrow> probe_error + http_Response" where
  "redirecting u =
     (if u = ''http://short.example/a'' then Inr \<lparr>StatusCode = 302, Location = Inr target_url\<rparr>
      else if u = ''http://target.example/'' then Inr \<lparr>StatusCode = 301, Location = Inr further_url\<rparr>
      else Inl HeadFailed)"


section \<open>Auxiliary facts\<close>

lemma TrimPrefix_append: "TrimPrefix (p @ s) p = s"
  by (simp add: TrimPrefix_def HasPrefix_def)

lemma filter_other_codes:
  "distinct (map f xs) \<Longrightarrow> r \<in> set xs \<Longrightarrow> filter (\<lambda>x. f x \<noteq> f r) xs = remove1 r xs"
proof (induction xs)
  case Nil
  then show ?case by simp
next
  case (Cons a xs)
  show ?case
  proof (cases "a = r")
    case True
    have "f r \<notin> f ` set xs" using Cons.prems True by simp
    then have "\<forall>x\<in>set xs. f x \<noteq> f r" by (metis imageI)
    then have "filter (\<lambda>x. f x \<noteq> f r) xs = xs" by (simp add: filter_id_conv)
    then show ?thesis using True by simp
  next
    case False
    then have "r \<in> set xs" using Cons.prems by simp
    moreover have "f a \<notin> f ` set xs" using Cons.prems by simp
    then have "f a \<noteq> f r" using \<open>r \<in> set xs\<close> by (metis imageI)
    moreover have "distinct (map f xs)" using Cons.prems by simp
    ultimately show ?thesis using Cons False by simp
  qed
qed

lemma filter_absent_code: "c \<notin> f ` set xs \<Longrightarrow> filter (\<lambda>x. f x \<noteq> c) xs = xs"
  by (auto simp: filter_id_conv)


lemma find_LongURL_None: "find (\<lambda>x. LongURL x = u) xs = None \<longleftrightarrow> u \<notin> LongURL ` set xs"
  by (auto simp: find_None_iff)

lemma list_ex_ShortCode: "list_ex (\<lambda>x. ShortCode x = c) xs \<longleftrightarrow> c \<in> ShortCode ` set xs"
  by (auto simp: list_ex_iff)

lemma create_effect:
  "snd (handleCreateShortURL cfg e db r) = db
   \<or> (\<exists>c u. u \<notin> LongURL ` set (rows db) \<and> c \<notin> ShortCode ` set (rows db)
         \<and> snd (handleCreateShortURL cfg e db r)
            = \<lparr>rows = rows db @ [\<lparr>ID = nextID db, ShortCode = c, LongURL = u\<rparr>],
               nextID = nextID db + 1\<rparr>)"
  by (auto simp: handleCreateShortURL_def Let_def select_short_code_by_long_url_def insert_row_def
      find_LongURL_None list_ex_ShortCode
      split: sum.splits option.splits sql_error.splits if_splits)

lemma create_same_table:
  "snd (handleCreateShortURL_part_000 cfg e db r) = snd (handleCreateShortURL cfg e db r)"
  by (simp add: handleCreateShortURL_def handleCreateShortURL_part_000_def Let_def
      split: sum.splits option.splits sql_error.splits)

lemma create_same_status:
  "status (fst (handleCreateShortURL_part_000 cfg e db r)) = status (fst (handleCreateShortURL cfg e db r))"
  by (simp add: handleCreateShortURL_def handleCreateShortURL_part_000_def Let_def
      split: sum.splits option.splits sql_error.splits)


lemma unique_rows_create: "unique_rows db \<Longrightarrow> unique_rows (snd (handleCreateShortURL cfg e db r))"
  using create_effect[of cfg e db r] by (auto simp: unique_rows_def)

lemma unique_rows_delete: "unique_rows db \<Longrightarrow> unique_rows (snd (handleDeleteShortURL cfg e db r))"
  by (auto simp: unique_rows_def handleDeleteShortURL_def Let_def delete_by_short_code_def
      distinct_map_filter split: sum.splits if_splits)

lemma redirect_same_table: "snd (handleShortURL e db r) = db"
  by (simp add: handleShortURL_def Let_def split: sum.splits)

lemma unique_rows_step: "unique_rows db \<Longrightarrow> unique_rows (step cfg db ev)"
  by (cases ev) (simp_all add: redirect_same_table unique_rows_create create_same_table unique_rows_delete)

lemma unique_rows_foldl: "unique_rows db \<Longrightarrow> unique_rows (foldl (step cfg) db evs)"
  by (induction evs arbitrary: db) (simp_all add: unique_rows_step)

lemma unique_rows_run: "unique_rows (run cfg evs)"
  unfolding run_def by (rule unique_rows_foldl) (simp add: unique_rows_def emptyDB_def)


lemma create_success:
  assumes f: "getFinalURL (client_Head (Transport e)) (FormValue_long_url r) = Inr f"
    and ok: "status (fst (handleCreateShortURL cfg e db r)) = Some 200"
  shows "(\<exists>row. find (\<lambda>x. LongURL x = removeQueryParams f) (rows db) = Some row
            \<and> handleCreateShortURL cfg e db r
              = (Written [] None (''Short URL already exists: '' @ domain cfg @ ShortCode row @ [newline]), db))
       \<or> (\<exists>c. find (\<lambda>x. LongURL x = removeQueryParams f) (rows db) = None
            \<and> MustGenerate e = Some c \<and> c \<notin> ShortCode ` set (rows db)
            \<and> handleCreateShortURL cfg e db r
              = (Written [] None (''Short URL created: '' @ domain cfg @ c @ [newline]),
                 \<lparr>rows = rows db @ [\<lparr>ID = nextID db, ShortCode = c, LongURL = removeQueryParams f\<rparr>],
                  nextID = nextID db + 1\<rparr>))"
  using f ok
  by (auto simp: handleCreateShortURL_def Let_def select_short_code_by_long_url_def insert_row_def
      generateShortCode_def list_ex_ShortCode
      StatusBadRequest_def StatusInternalServerError_def
      split: sum.splits option.splits sql_error.splits if_splits)

lemma create_existing:
  assumes f: "getFinalURL (client_Head (Transport e)) (FormValue_long_url r) = Inr f"
    and row: "find (\<lambda>x. LongURL x = removeQueryParams f) (rows db) = Some row"
    and g: "MustGenerate e = Some c" and q: "\<not> queryFails e"
    and nonempty: "FormValue_long_url r \<noteq> []"
  shows "handleCreateShortURL cfg e db r
     = (Written [] None (''Short URL already exists: '' @ domain cfg @ ShortCode row @ [newline]), db)"
  using assms
  by (simp add: handleCreateShortURL_def Let_def select_short_code_by_long_url_def generateShortCode_def)

lemma getFinalURL_nonempty_input:
  "status (fst (handleCreateShortURL cfg e db r)) = Some 200 \<Longrightarrow> FormValue_long_url r \<noteq> []"
  by (auto simp: handleCreateShortURL_def Let_def StatusBadRequest_def)

lemma count_one:
  "distinct (map f xs) \<Longrightarrow> find (\<lambda>x. f x = u) xs = Some r \<Longrightarrow> length (filter (\<lambda>x. f x = u) xs) = 1"
proof (induction xs)
  case Nil
  then show ?case by simp
next
  case (Cons a xs)
  show ?case
  proof (cases "f a = u")
    case True
    then have "u \<notin> f ` set xs" using Cons.prems by auto
    then have "filter (\<lambda>x. f x = u) xs = []" by (auto simp: filter_empty_conv)
    then show ?thesis using True by simp
  next
    case False
    then show ?thesis using Cons by simp
  qed
qed

lemma count_pos: "find P xs = Some r \<Longrightarrow> 1 \<le> length (filter P xs)"
  by (induction xs) (auto split: if_splits)

lemma count_none: "find (\<lambda>x. f x = u) xs = None \<Longrightarrow> filter (\<lambda>x. f x = u) xs = []"
  by (auto simp: find_None_iff filter_empty_conv)

lemma find_append_new:
  "find P xs = None \<Longrightarrow> P y \<Longrightarrow> find P (xs @ [y]) = Some y"
  by (induction xs) (auto split: if_splits)


lemma create_success_part_000:
  assumes f: "getFinalURL (client_Head (Transport e)) (FormValue_long_url r) = Inr f"
    and ok: "status (fst (handleCreateShortURL_part_000 cfg e db r)) = Some 200"
  shows "(\<exists>row. find (\<lambda>x. LongURL x = removeQueryParams f) (rows db) = Some row
            \<and> handleCreateShortURL_part_000 cfg e db r
              = (Written [(''Content-Type'', ''application/json'')] None
                   (json_short_url (domain cfg @ ''/'' @ ShortCode row)), db))
       \<or> (\<exists>c. find (\<lambda>x. LongURL x = removeQueryParams f) (rows db) = None
            \<and> MustGenerate e = Some c \<and> c \<notin> ShortCode ` set (rows db)
            \<and> handleCreateShortURL_part_000 cfg e db r
              = (Written [(''Content-Type'', ''application/json'')] None
                   (json_short_url (domain cfg @ ''/'' @ c)),
                 \<lparr>rows = rows db @ [\<lparr>ID = nextID db, ShortCode = c, LongURL = removeQueryParams f\<rparr>],
                  nextID = nextID db + 1\<rparr>))"
  using f ok
  by (auto simp: handleCreateShortURL_part_000_def Let_def select_short_code_by_long_url_def
      insert_row_def generateShortCode_def list_ex_ShortCode
      StatusBadRequest_def StatusInternalServerError_def
      split: sum.splits option.splits sql_error.splits if_splits)

lemma create_existing_part_000:
  assumes f: "getFinalURL (client_Head (Transport e)) (FormValue_long_url r) = Inr f"
    and row: "find (\<lambda>x. LongURL x = removeQueryParams f) (rows db) = Some row"
    and g: "MustGenerate e = Some c" and q: "\<not> queryFails e"
    and nonempty: "FormValue_long_url r \<noteq> []"
  shows "handleCreateShortURL_part_000 cfg e db r
     = (Written [(''Content-Type'', ''application/json'')] None
          (json_short_url (domain cfg @ ''/'' @ ShortCode row)), db)"
  using assms
  by (simp add: handleCreateShortURL_part_000_def Let_def select_short_code_by_long_url_def
      generateShortCode_def)

lemma create_new:
  assumes nonempty: "FormValue_long_url r \<noteq> []"
    and f: "getFinalURL (client_Head (Transport e)) (FormValue_long_url r) = Inr f"
    and g: "MustGenerate e = Some c" and q: "\<not> queryFails e" and x: "\<not> execFails e"
    and fresh: "removeQueryParams f \<notin> LongURL ` set (rows db)" "c \<notin> ShortCode ` set (rows db)"
  shows "handleCreateShortURL cfg e db r
     = (Written [] None (''Short URL created: '' @ domain cfg @ c @ [newline]),
        \<lparr>rows = rows db @ [\<lparr>ID = nextID db, ShortCode = c, LongURL = removeQueryParams f\<rparr>],
         nextID = nextID db + 1\<rparr>)"
  using assms
  by (simp add: handleCreateShortURL_def Let_def select_short_code_by_long_url_def insert_row_def
      generateShortCode_def find_LongURL_None[symmetric] list_ex_ShortCode)

lemma create_new_part_000:
  assumes nonempty: "FormValue_long_url r \<noteq> []"
    and f: "getFinalURL (client_Head (Transport e)) (FormValue_long_url r) = Inr f"
    and g: "MustGenerate e = Some c" and q: "\<not> queryFails e" and x: "\<not> execFails e"
    and fresh: "removeQueryParams f \<notin> LongURL ` set (rows db)" "c \<notin> ShortCode ` set (rows db)"
  shows "handleCreateShortURL_part_000 cfg e db r
     = (Written [(''Content-Type'', ''application/json'')] None
          (json_short_url (domain cfg @ ''/'' @ c)),
        \<lparr>rows = rows db @ [\<lparr>ID = nextID db, ShortCode = c, LongURL = removeQueryParams f\<rparr>],
         nextID = nextID db + 1\<rparr>)"
  using assms
  by (simp add: handleCreateShortURL_part_000_def Let_def select_short_code_by_long_url_def
      insert_row_def generateShortCode_def find_LongURL_None[symmetric] list_ex_ShortCode)

lemma create_insert_refused:
  assumes nonempty: "FormValue_long_url r \<noteq> []"
    and f: "getFinalURL (client_Head (Transport e)) (FormValue_long_url r) = Inr f"
    and g: "MustGenerate e = Some c" and q: "\<not> queryFails e"
    and absent: "removeQueryParams f \<notin> LongURL ` set (rows db)"
    and used: "execFails e \<or> c \<in> ShortCode ` set (rows db)"
  shows "handleCreateShortURL cfg e db r
      = (http_Error ''Failed to create short URL'' StatusInternalServerError, db)"
    and "handleCreateShortURL_part_000 cfg e db r
      = (http_Error (json_error ''Failed to create short URL'') StatusInternalServerError, db)"
  using assms
  by (auto simp: handleCreateShortURL_def handleCreateShortURL_part_000_def Let_def
      select_short_code_by_long_url_def insert_row_def generateShortCode_def
      find_LongURL_None[symmetric] list_ex_ShortCode)

lemma env_ok_simps:
  "MustGenerate (env_ok c) = Some c" "\<not> queryFails (env_ok c)" "\<not> execFails (env_ok c)"
  by (simp_all add: env_ok_def)

lemma create_req_nonempty: "u \<noteq> [] \<Longrightarrow> FormValue_long_url (create_req u) \<noteq> []"
  by (simp add: create_req_def)

lemma rows_emptyDB: "rows emptyDB = []" "nextID emptyDB = 1"
  by (simp_all add: emptyDB_def)

lemma run_Nil: "run cfg [] = emptyDB" by (simp add: run_def)

lemma rq1: "removeQueryParams ''http://example.com/page?x=1'' = ''http://example.com/page''" by code_simp
lemma rq2: "removeQueryParams ''http://example.com/page?y=2'' = ''http://example.com/page''" by code_simp

lemma getFinalURL_ok200:
  assumes "ok200 u = Inr resp"
  shows "getFinalURL (client_Head (Transport (env_ok c))) (FormValue_long_url (create_req u)) = Inr u"
proof -
  obtain p where p: "url_Parse u = Inr p"
    using assms by (cases "url_Parse u") (simp_all add: ok200_def)
  have resp: "resp = \<lparr>StatusCode = 200, Location = Inl ErrNoLocation\<rparr>"
    using assms p by (simp add: ok200_def split: if_splits)
  have "client_Head ok200 u = Inr resp" using assms p by (simp add: client_Head_def)
  then show ?thesis
    by (simp add: getFinalURL_def env_ok_def create_req_def isRedirect_def resp)
qed

lemma ok200_examples:
  "ok200 ''http://example.com/page?x=1'' = Inr \<lparr>StatusCode = 200, Location = Inl ErrNoLocation\<rparr>"
  "ok200 ''http://example.com/page?y=2'' = Inr \<lparr>StatusCode = 200, Location = Inl ErrNoLocation\<rparr>"
  "ok200 ''http://example.com/page'' = Inr \<lparr>StatusCode = 200, Location = Inl ErrNoLocation\<rparr>"
  "ok200 ''http://example.com/page?'' = Inr \<lparr>StatusCode = 200, Location = Inl ErrNoLocation\<rparr>"
  "ok200 ''http://example.com/?ref=1'' = Inr \<lparr>StatusCode = 200, Location = Inl ErrNoLocation\<rparr>"
  "ok200 ''http://example.com/x'' = Inr \<lparr>StatusCode = 200, Location = Inl ErrNoLocation\<rparr>"
  by code_simp+

lemmas probe_examples =
  getFinalURL_ok200[OF ok200_examples(1)] getFinalURL_ok200[OF ok200_examples(2)]
  getFinalURL_ok200[OF ok200_examples(3)] getFinalURL_ok200[OF ok200_examples(4)]
  getFinalURL_ok200[OF ok200_examples(5)] getFinalURL_ok200[OF ok200_examples(6)]




lemma TrimPrefix_slash: "TrimPrefix (''/'' @ c) ''/'' = c"
  by (rule TrimPrefix_append)



subsection \<open>A failing datastore\<close>

lemma redirect_query_failure:
  "queryFails e \<Longrightarrow> handleShortURL e db r = (http_NotFound, db)"
  by (simp add: handleShortURL_def Let_def select_by_short_code_def)

lemma create_query_failure:
  assumes "FormValue_long_url r \<noteq> []" "getFinalURL (client_Head (Transport e)) (FormValue_long_url r) = Inr f"
    and "MustGenerate e = Some c" "queryFails e"
  shows "status (fst (handleCreateShortURL cfg e db r)) = Some 500"
    and "status (fst (handleCreateShortURL_part_000 cfg e db r)) = Some 500"
  using assms
  by (simp_all add: handleCreateShortURL_def handleCreateShortURL_part_000_def Let_def
      generateShortCode_def select_short_code_by_long_url_def StatusInternalServerError_def)

lemma delete_exec_failure:
  assumes "Header_Authorization r = adminKey cfg" "TrimPrefix (URL_Path r) ''/api/delete/'' \<noteq> []"
    and "execFails e"
  shows "status (fst (handleDeleteShortURL cfg e db r)) = Some 500"
  using assms
  by (simp add: handleDeleteShortURL_def Let_def delete_by_short_code_def
      StatusInternalServerError_def)


subsection \<open>Parsing a URL with and without its query\<close>

lemma qmark_class [simp]:
  "\<not> isLower CHR ''?''" "\<not> isUpper CHR ''?''" "\<not> isDigit CHR ''?''"
  by (simp_all add: isLower_def isUpper_def isDigit_def byte_def)

lemma getScheme_loop_query:
  assumes "CHR ''?'' \<notin> set b"
  shows "getScheme_loop (p @ b @ CHR ''?'' # q) (length p) (b @ CHR ''?'' # q)
       = (case getScheme_loop (p @ b) (length p) b of
            Inl e \<Rightarrow> Inl e | Inr (s, r) \<Rightarrow> Inr (s, r @ CHR ''?'' # q))"
  using assms
proof (induction b arbitrary: p)
  case Nil
  show ?case by simp
next
  case (Cons c b)
  have c: "c \<noteq> CHR ''?''" and b: "CHR ''?'' \<notin> set b" using Cons.prems by auto
  have ih: "getScheme_loop (p @ c # b @ CHR ''?'' # q) (Suc (length p)) (b @ CHR ''?'' # q)
       = (case getScheme_loop (p @ c # b) (Suc (length p)) b of
            Inl e \<Rightarrow> Inl e | Inr (s, r) \<Rightarrow> Inr (s, r @ CHR ''?'' # q))"
    using Cons.IH[OF b, of "p @ [c]"] by simp
  show ?case using ih c by auto
qed

lemma getScheme_query:
  "CHR ''?'' \<notin> set b \<Longrightarrow>
   getScheme (b @ CHR ''?'' # q)
     = (case getScheme b of Inl e \<Rightarrow> Inl e | Inr (s, r) \<Rightarrow> Inr (s, r @ CHR ''?'' # q))"
  using getScheme_loop_query[of b "[]" q] by (simp add: getScheme_def)

lemma getScheme_loop_rest:
  "getScheme_loop raw i s = Inr (sch, r) \<Longrightarrow> set r \<subseteq> set raw"
proof (induction raw i s rule: getScheme_loop.induct)
  case (1 raw i)
  then show ?case by simp
next
  case (2 raw i c s)
  then show ?case
    by (auto split: if_splits dest: in_set_dropD)
qed

lemma getScheme_rest: "getScheme b = Inr (sch, r) \<Longrightarrow> set r \<subseteq> set b"
  unfolding getScheme_def by (rule getScheme_loop_rest)

lemma dropWhile_sep: "c \<notin> set r \<Longrightarrow> dropWhile (\<lambda>x. x \<noteq> c) (r @ c # q) = c # q"
  by (induction r) auto

lemma takeWhile_sep: "c \<notin> set r \<Longrightarrow> takeWhile (\<lambda>x. x \<noteq> c) (r @ c # q) = r"
  by (induction r) auto

lemma dropWhile_no_sep: "c \<notin> set r \<Longrightarrow> dropWhile (\<lambda>x. x \<noteq> c) r = []"
  by (induction r) auto

lemma Cut_found: "c \<notin> set r \<Longrightarrow> Cut (r @ c # q) c = (r, q, True)"
  by (simp add: Cut_def dropWhile_sep takeWhile_sep)

lemma Cut_absent: "c \<notin> set r \<Longrightarrow> Cut r c = (r, [], False)"
  by (simp add: Cut_def dropWhile_no_sep)

lemma HasSuffix_qmark: "HasSuffix s ''?'' \<longleftrightarrow> s \<noteq> [] \<and> last s = CHR ''?''"
proof (cases s rule: rev_cases)
  case Nil
  then show ?thesis by (simp add: HasSuffix_def)
next
  case (snoc ys y)
  then show ?thesis by (simp add: HasSuffix_def)
qed

lemma parse_query_present:
  assumes r: "CHR ''?'' \<notin> set r" and q: "q \<noteq> []"
  shows "parse_query u (r @ CHR ''?'' # q) = (u\<lparr>RawQuery := q\<rparr>, r)"
proof -
  have "\<not> (HasSuffix (r @ CHR ''?'' # q) ''?'' \<and> count_list (r @ CHR ''?'' # q) CHR ''?'' = 1)"
  proof
    assume h: "HasSuffix (r @ CHR ''?'' # q) ''?'' \<and> count_list (r @ CHR ''?'' # q) CHR ''?'' = 1"
    then have "last q = CHR ''?''" using q by (simp add: HasSuffix_qmark)
    then have "CHR ''?'' \<in> set q" using q last_in_set by metis
    then have "count_list q CHR ''?'' > 0" by (metis count_list_0_iff gr0I)
    then show False using h by simp
  qed
  then show ?thesis unfolding parse_query_def
    by (subst if_not_P) (simp_all add: Cut_found[OF r])
qed

lemma parse_query_absent:
  assumes r: "CHR ''?'' \<notin> set r"
  shows "parse_query u r = (u\<lparr>RawQuery := []\<rparr>, r)"
proof -
  have "\<not> HasSuffix r ''?''" using r by (metis HasSuffix_qmark last_in_set)
  then have nc: "\<not> (HasSuffix r ''?'' \<and> count_list r CHR ''?'' = 1)" by simp
  show ?thesis unfolding parse_query_def
    by (subst if_not_P[OF nc]) (simp add: Cut_absent[OF r])
qed

lemma setPath_RawQuery:
  "setPath (u\<lparr>RawQuery := q\<rparr>) p = map_sum id (\<lambda>v. v\<lparr>RawQuery := q\<rparr>) (setPath u p)"
  by (simp add: setPath_def split: sum.splits)

lemma parse_rest_RawQuery:
  "parse_rest (u\<lparr>RawQuery := q\<rparr>) rest = map_sum id (\<lambda>v. v\<lparr>RawQuery := q\<rparr>) (parse_rest u rest)"
  by (simp add: parse_rest_def parse_authority_path_def setPath_def Let_def
      split: sum.splits prod.splits option.splits)

lemma setFragment_RawQuery:
  "setFragment (u\<lparr>RawQuery := q\<rparr>) f = map_sum id (\<lambda>v. v\<lparr>RawQuery := q\<rparr>) (setFragment u f)"
  by (simp add: setFragment_def split: sum.splits)


lemma CTL_append: "stringContainsCTLByte (xs @ ys) \<longleftrightarrow> stringContainsCTLByte xs \<or> stringContainsCTLByte ys"
  by (simp add: stringContainsCTLByte_def list_ex_iff) blast

lemma parse_strip_query:
  assumes b: "CHR ''?'' \<notin> set b" and q: "q \<noteq> []" and star: "b \<noteq> ''*''"
    and p: "parse (b @ CHR ''?'' # q) = Inr u"
  shows "parse b = Inr (u\<lparr>RawQuery := []\<rparr>)"
proof -
  have ctl: "\<not> stringContainsCTLByte (b @ CHR ''?'' # q)"
    using p by (auto simp: parse_def split: if_splits)
  then have ctlb: "\<not> stringContainsCTLByte b" by (simp add: CTL_append)
  have ne: "b @ CHR ''?'' # q \<noteq> ''*''" using q by (cases b) auto
  obtain sch r where gs: "getScheme b = Inr (sch, r)"
  proof (cases "getScheme b")
    case (Inl e)
    then have "parse (b @ CHR ''?'' # q) = Inl e"
      using ctl ne by (simp add: parse_def getScheme_query[OF b])
    then show ?thesis using p by simp
  next
    case (Inr x)
    then show ?thesis using that by (cases x) simp
  qed
  have r: "CHR ''?'' \<notin> set r" using getScheme_rest[OF gs] b by auto
  let ?u0 = "emptyURL\<lparr>Scheme := ToLower sch\<rparr>"
  have "parse (b @ CHR ''?'' # q) = parse_rest (?u0\<lparr>RawQuery := q\<rparr>) r"
    using ctl ne by (simp add: parse_def getScheme_query[OF b] gs parse_query_present[OF r q])
  then have pr: "map_sum id (\<lambda>v. v\<lparr>RawQuery := q\<rparr>) (parse_rest ?u0 r) = Inr u"
    using p by (simp add: parse_rest_RawQuery)
  then obtain v where v: "parse_rest ?u0 r = Inr v" and uv: "u = v\<lparr>RawQuery := q\<rparr>"
    by (cases "parse_rest ?u0 r") auto
  have "parse b = parse_rest (?u0\<lparr>RawQuery := []\<rparr>) r"
    using ctlb star by (simp add: parse_def gs parse_query_absent[OF r])
  also have "\<dots> = Inr (v\<lparr>RawQuery := []\<rparr>)" by (simp add: parse_rest_RawQuery v)
  also have "v\<lparr>RawQuery := []\<rparr> = u\<lparr>RawQuery := []\<rparr>" by (simp add: uv)
  finally show ?thesis .
qed

lemma url_Parse_strip_query:
  assumes b: "CHR ''?'' \<notin> set b" "CHR ''#'' \<notin> set b"
    and q: "q \<noteq> []" "CHR ''#'' \<notin> set q"
    and f: "f = [] \<or> hd f = CHR ''#''"
    and star: "b \<noteq> ''*''"
    and p: "url_Parse (b @ ''?'' @ q @ f) = Inr u"
  shows "url_Parse (b @ f) = Inr (u\<lparr>RawQuery := []\<rparr>)"
proof -
  let ?s = "b @ CHR ''?'' # q"
  have hs: "CHR ''#'' \<notin> set ?s" using b q by simp
  obtain frag where cut1: "Cut (b @ ''?'' @ q @ f) CHR ''#'' = (?s, frag, f \<noteq> [])"
    and cut2: "Cut (b @ f) CHR ''#'' = (b, frag, f \<noteq> [])"
  proof (cases f)
    case Nil
    show ?thesis using that[of "[]"] Cut_absent[OF hs] Cut_absent[OF b(2)] Nil by simp
  next
    case (Cons c frag)
    then have c: "c = CHR ''#''" using f by simp
    show ?thesis using that[of frag] Cut_found[OF hs, of frag] Cut_found[OF b(2), of frag] Cons c
      by simp
  qed
  obtain url where pu: "parse ?s = Inr url"
    using p cut1 by (cases "parse ?s") (auto simp: url_Parse_def)
  have pb: "parse b = Inr (url\<lparr>RawQuery := []\<rparr>)"
    by (rule parse_strip_query[OF b(1) q(1) star pu])
  show ?thesis
  proof (cases "frag = []")
    case True
    then show ?thesis using p cut1 cut2 pu pb by (simp add: url_Parse_def)
  next
    case False
    then have "setFragment url frag = Inr u" using p cut1 pu by (simp add: url_Parse_def)
    then have "setFragment (url\<lparr>RawQuery := []\<rparr>) frag = Inr (u\<lparr>RawQuery := []\<rparr>)"
      by (simp add: setFragment_RawQuery)
    then show ?thesis using False cut2 pb by (simp add: url_Parse_def)
  qed
qed

lemma getScheme_star: "getScheme ''*'' = Inr ([], ''*'')" by code_simp
lemma parse_rest_star: "parse_rest emptyURL ''*'' = Inr (emptyURL\<lparr>Path := ''*'', RawPath := ''*''\<rparr>)"
  by code_simp
lemma parse_star: "parse ''*'' = Inr (emptyURL\<lparr>Path := ''*''\<rparr>)"
  by code_simp
lemma ToLower_Nil: "ToLower [] = []" by (simp add: ToLower_def)

lemma parse_star_query:
  assumes q: "q \<noteq> []" and p: "parse (''*'' @ CHR ''?'' # q) = Inr u"
  shows "u = emptyURL\<lparr>Path := ''*'', RawPath := ''*'', RawQuery := q\<rparr>"
proof -
  have s: "CHR ''?'' \<notin> set ''*''" by simp
  have ctl: "\<not> stringContainsCTLByte (''*'' @ CHR ''?'' # q)"
    using p by (auto simp: parse_def split: if_splits)
  have ne: "''*'' @ CHR ''?'' # q \<noteq> ''*''" by simp
  have "parse (''*'' @ CHR ''?'' # q) = parse_rest (emptyURL\<lparr>Scheme := [], RawQuery := q\<rparr>) ''*''"
    using ctl ne
    by (simp only: parse_def getScheme_query[OF s] getScheme_star parse_query_present[OF s q]
        if_False sum.case prod.case ToLower_Nil)
  also have "emptyURL\<lparr>Scheme := [], RawQuery := q\<rparr> = emptyURL\<lparr>RawQuery := q\<rparr>"
    by (simp add: emptyURL_def)
  also have "parse_rest (emptyURL\<lparr>RawQuery := q\<rparr>) ''*''
      = Inr (emptyURL\<lparr>Path := ''*'', RawPath := ''*'', RawQuery := q\<rparr>)"
    by (simp add: parse_rest_RawQuery parse_rest_star)
  finally show ?thesis using p by simp
qed

lemma setFragment_RawPath:
  "setFragment (u\<lparr>RawPath := x\<rparr>) f = map_sum id (\<lambda>v. v\<lparr>RawPath := x\<rparr>) (setFragment u f)"
  by (simp add: setFragment_def split: sum.splits)

lemma setFragment_fields:
  "setFragment w f = Inr v \<Longrightarrow>
     Path v = Path w \<and> RawPath v = RawPath w \<and> RawQuery v = RawQuery w"
  by (auto simp: setFragment_def split: sum.splits)

lemma URL_String_RawPath:
  assumes "EscapedPath (v\<lparr>RawPath := x\<rparr>) = EscapedPath v"
  shows "URL_String (v\<lparr>RawPath := x\<rparr>) = URL_String v"
  using assms
  by (simp add: URL_String_def String_path_def String_scheme_def String_authority_def
      EscapedFragment_def Let_def)

lemma EscapedPath_star:
  assumes "Path v = ''*''" "RawPath v = []"
  shows "EscapedPath (v\<lparr>RawPath := ''*''\<rparr>) = EscapedPath v"
proof -
  have "EscapedPath v = ''*''" using assms by (simp add: EscapedPath_def)
  moreover have "validEncoded ''*'' encodePath" by code_simp
  moreover have "unescape ''*'' encodePath = Inr ''*''" by code_simp
  ultimately show ?thesis using assms by (simp add: EscapedPath_def)
qed

lemma url_Parse_star_query:
  assumes q: "q \<noteq> []" "CHR ''#'' \<notin> set q"
    and f: "f = [] \<or> hd f = CHR ''#''"
    and p: "url_Parse (''*'' @ ''?'' @ q @ f) = Inr u"
  shows "\<exists>v. url_Parse (''*'' @ f) = Inr v \<and> u = v\<lparr>RawPath := ''*'', RawQuery := q\<rparr>
           \<and> Path v = ''*'' \<and> RawPath v = [] \<and> RawQuery v = []"
proof -
  let ?s = "''*'' @ CHR ''?'' # q"
  let ?w = "emptyURL\<lparr>Path := ''*''\<rparr>"
  have hs: "CHR ''#'' \<notin> set ?s" using q by simp
  have hb: "CHR ''#'' \<notin> set ''*''" by simp
  obtain frag where cut1: "Cut (''*'' @ ''?'' @ q @ f) CHR ''#'' = (?s, frag, f \<noteq> [])"
    and cut2: "Cut (''*'' @ f) CHR ''#'' = (''*'', frag, f \<noteq> [])"
  proof (cases f)
    case Nil
    show ?thesis using that[of "[]"] Cut_absent[OF hs] Cut_absent[OF hb] Nil by simp
  next
    case (Cons c frag)
    then have c: "c = CHR ''#''" using f by simp
    show ?thesis using that[of frag] Cut_found[OF hs, of frag] Cut_found[OF hb, of frag] Cons c
      by simp
  qed
  obtain url where pu: "parse ?s = Inr url"
    using p cut1 by (cases "parse ?s") (auto simp: url_Parse_def)
  have url: "url = ?w\<lparr>RawPath := ''*'', RawQuery := q\<rparr>"
    using parse_star_query[OF q(1) pu] by simp
  have w: "Path ?w = ''*''" "RawPath ?w = []" "RawQuery ?w = []"
    by (simp_all add: emptyURL_def)
  show ?thesis
  proof (cases "frag = []")
    case True
    then have "u = url" using p cut1 pu by (simp add: url_Parse_def)
    moreover have "url_Parse (''*'' @ f) = Inr ?w"
      using True cut2 parse_star by (simp add: url_Parse_def)
    ultimately show ?thesis using url w by blast
  next
    case False
    then have "setFragment url frag = Inr u" using p cut1 pu by (simp add: url_Parse_def)
    then have "map_sum (\<lambda>e. e) (\<lambda>v. v\<lparr>RawPath := ''*'', RawQuery := q\<rparr>) (setFragment ?w frag) = Inr u"
      by (simp add: url setFragment_RawQuery setFragment_RawPath sum.map_comp comp_def)
    then obtain v where v: "setFragment ?w frag = Inr v" and uv: "u = v\<lparr>RawPath := ''*'', RawQuery := q\<rparr>"
      by (cases "setFragment ?w frag") auto
    have "url_Parse (''*'' @ f) = Inr v"
      using False cut2 parse_star v by (simp add: url_Parse_def)
    then show ?thesis using uv setFragment_fields[OF v] w by auto
  qed
qed

lemma strip_query_core:
  assumes b: "CHR ''?'' \<notin> set b" "CHR ''#'' \<notin> set b"
    and q: "q \<noteq> []" "CHR ''#'' \<notin> set q"
    and f: "f = [] \<or> hd f = CHR ''#''"
    and p: "url_Parse (b @ ''?'' @ q @ f) = Inr u"
  shows "\<exists>v. url_Parse (b @ f) = Inr v
          \<and> Scheme v = Scheme u \<and> Opaque v = Opaque u \<and> User v = User u \<and> Host v = Host u
          \<and> Path v = Path u \<and> Fragment v = Fragment u \<and> RawQuery v = []
          \<and> removeQueryParams (b @ ''?'' @ q @ f) = URL_String v
          \<and> removeQueryParams (b @ f) = URL_String v"
proof (cases "b = ''*''")
  case False
  have v: "url_Parse (b @ f) = Inr (u\<lparr>RawQuery := []\<rparr>)"
    by (rule url_Parse_strip_query[OF b q f False p])
  have "removeQueryParams (b @ ''?'' @ q @ f) = URL_String (u\<lparr>RawQuery := []\<rparr>)"
    using p by (simp add: removeQueryParams_def)
  moreover have "removeQueryParams (b @ f) = URL_String (u\<lparr>RawQuery := []\<rparr>)"
    using v by (simp add: removeQueryParams_def)
  ultimately show ?thesis using v by simp
next
  case True
  from url_Parse_star_query[OF q f p[unfolded True]]
  obtain v where v: "url_Parse (''*'' @ f) = Inr v" and uv: "u = v\<lparr>RawPath := ''*'', RawQuery := q\<rparr>"
    and pv: "Path v = ''*''" "RawPath v = []" and qv: "RawQuery v = []" by blast
  have vq: "v\<lparr>RawQuery := []\<rparr> = v" using qv by simp
  have "removeQueryParams (b @ ''?'' @ q @ f) = URL_String (u\<lparr>RawQuery := []\<rparr>)"
    using p by (simp add: removeQueryParams_def)
  also have "u\<lparr>RawQuery := []\<rparr> = v\<lparr>RawPath := ''*''\<rparr>"
    using uv qv by simp
  also have "URL_String (v\<lparr>RawPath := ''*''\<rparr>) = URL_String v"
    by (rule URL_String_RawPath[OF EscapedPath_star[OF pv]])
  finally have 1: "removeQueryParams (b @ ''?'' @ q @ f) = URL_String v" .
  have 2: "removeQueryParams (b @ f) = URL_String v"
    using v vq by (simp add: removeQueryParams_def True)
  show ?thesis using v 1 2 uv qv by (simp add: True)
qed


lemma create_twice:
  assumes reach: "db = run cfg evs"
    and f1: "getFinalURL (client_Head (Transport e1)) (FormValue_long_url r1) = Inr f1"
    and f2: "getFinalURL (client_Head (Transport e2)) (FormValue_long_url r2) = Inr f2"
    and u1: "removeQueryParams f1 = u" and u2: "removeQueryParams f2 = u"
    and in2: "FormValue_long_url r2 \<noteq> []"
    and g2: "MustGenerate e2 = Some c2" and q2: "\<not> queryFails e2"
  shows "(status (fst (handleCreateShortURL cfg e1 db r1)) = Some 200 \<longrightarrow>
      (\<exists>c. (fst (handleCreateShortURL cfg e1 db r1)
              = Written [] None (''Short URL created: '' @ domain cfg @ c @ [newline])
            \<or> fst (handleCreateShortURL cfg e1 db r1)
              = Written [] None (''Short URL already exists: '' @ domain cfg @ c @ [newline]))
         \<and> fst (handleCreateShortURL cfg e2 (snd (handleCreateShortURL cfg e1 db r1)) r2)
              = Written [] None (''Short URL already exists: '' @ domain cfg @ c @ [newline])
         \<and> length (filter (\<lambda>x. LongURL x = u)
              (rows (snd (handleCreateShortURL cfg e2 (snd (handleCreateShortURL cfg e1 db r1)) r2)))) = 1))
    \<and> (status (fst (handleCreateShortURL_part_000 cfg e1 db r1)) = Some 200 \<longrightarrow>
      (\<exists>c. fst (handleCreateShortURL_part_000 cfg e1 db r1)
              = Written [(''Content-Type'', ''application/json'')] None
                  (json_short_url (domain cfg @ ''/'' @ c))
         \<and> fst (handleCreateShortURL_part_000 cfg e2 (snd (handleCreateShortURL_part_000 cfg e1 db r1)) r2)
              = Written [(''Content-Type'', ''application/json'')] None
                  (json_short_url (domain cfg @ ''/'' @ c))
         \<and> length (filter (\<lambda>x. LongURL x = u)
              (rows (snd (handleCreateShortURL_part_000 cfg e2
                 (snd (handleCreateShortURL_part_000 cfg e1 db r1)) r2)))) = 1))"
proof (intro conjI impI)
  have d: "distinct (map LongURL (rows db))"
    using unique_rows_run[of cfg evs] reach by (simp add: unique_rows_def)
  {
    assume ok1: "status (fst (handleCreateShortURL cfg e1 db r1)) = Some 200"
    from create_success[OF f1 ok1]
    show "\<exists>c. (fst (handleCreateShortURL cfg e1 db r1)
              = Written [] None (''Short URL created: '' @ domain cfg @ c @ [newline])
            \<or> fst (handleCreateShortURL cfg e1 db r1)
              = Written [] None (''Short URL already exists: '' @ domain cfg @ c @ [newline]))
         \<and> fst (handleCreateShortURL cfg e2 (snd (handleCreateShortURL cfg e1 db r1)) r2)
              = Written [] None (''Short URL already exists: '' @ domain cfg @ c @ [newline])
         \<and> length (filter (\<lambda>x. LongURL x = u)
              (rows (snd (handleCreateShortURL cfg e2 (snd (handleCreateShortURL cfg e1 db r1)) r2)))) = 1"
    proof (elim disjE exE conjE)
      fix row
      assume fr: "find (\<lambda>x. LongURL x = removeQueryParams f1) (rows db) = Some row"
        and h: "handleCreateShortURL cfg e1 db r1
          = (Written [] None (''Short URL already exists: '' @ domain cfg @ ShortCode row @ [newline]), db)"
      have fr2: "find (\<lambda>x. LongURL x = removeQueryParams f2) (rows db) = Some row"
        using fr u1 u2 by simp
      have h2: "handleCreateShortURL cfg e2 db r2
          = (Written [] None (''Short URL already exists: '' @ domain cfg @ ShortCode row @ [newline]), db)"
        by (rule create_existing[OF f2 fr2 g2 q2 in2])
      have n: "length (filter (\<lambda>x. LongURL x = u) (rows db)) = 1"
        using count_one[OF d, of u row] fr u1 by simp
      show ?thesis using h h2 n by auto
    next
      fix c
      assume fn: "find (\<lambda>x. LongURL x = removeQueryParams f1) (rows db) = None"
        and h: "handleCreateShortURL cfg e1 db r1
          = (Written [] None (''Short URL created: '' @ domain cfg @ c @ [newline]),
             \<lparr>rows = rows db @ [\<lparr>ID = nextID db, ShortCode = c, LongURL = removeQueryParams f1\<rparr>],
              nextID = nextID db + 1\<rparr>)"
      let ?new = "\<lparr>ID = nextID db, ShortCode = c, LongURL = removeQueryParams f1\<rparr>"
      let ?db1 = "\<lparr>rows = rows db @ [?new], nextID = nextID db + 1\<rparr>"
      have "find (\<lambda>x. LongURL x = removeQueryParams f2) (rows db @ [?new]) = Some ?new"
        using find_append_new[of "\<lambda>x. LongURL x = removeQueryParams f2" "rows db" ?new] fn u1 u2
        by simp
      then have fr2: "find (\<lambda>x. LongURL x = removeQueryParams f2) (rows ?db1) = Some ?new"
        by simp
      have h2: "handleCreateShortURL cfg e2 ?db1 r2
          = (Written [] None (''Short URL already exists: '' @ domain cfg @ ShortCode ?new @ [newline]), ?db1)"
        by (rule create_existing[OF f2 fr2 g2 q2 in2])
      have n: "length (filter (\<lambda>x. LongURL x = u) (rows ?db1)) = 1"
        using count_none[of LongURL u "rows db"] fn u1 by simp
      show ?thesis using h h2 n by auto
    qed
  }
  {
    assume ok1: "status (fst (handleCreateShortURL_part_000 cfg e1 db r1)) = Some 200"
    from create_success_part_000[OF f1 ok1]
    show "\<exists>c. fst (handleCreateShortURL_part_000 cfg e1 db r1)
              = Written [(''Content-Type'', ''application/json'')] None
                  (json_short_url (domain cfg @ ''/'' @ c))
         \<and> fst (handleCreateShortURL_part_000 cfg e2 (snd (handleCreateShortURL_part_000 cfg e1 db r1)) r2)
              = Written [(''Content-Type'', ''application/json'')] None
                  (json_short_url (domain cfg @ ''/'' @ c))
         \<and> length (filter (\<lambda>x. LongURL x = u)
              (rows (snd (handleCreateShortURL_part_000 cfg e2
                 (snd (handleCreateShortURL_part_000 cfg e1 db r1)) r2)))) = 1"
    proof (elim disjE exE conjE)
      fix row
      assume fr: "find (\<lambda>x. LongURL x = removeQueryParams f1) (rows db) = Some row"
        and h: "handleCreateShortURL_part_000 cfg e1 db r1
          = (Written [(''Content-Type'', ''application/json'')] None
               (json_short_url (domain cfg @ ''/'' @ ShortCode row)), db)"
      have fr2: "find (\<lambda>x. LongURL x = removeQueryParams f2) (rows db) = Some row"
        using fr u1 u2 by simp
      have h2: "handleCreateShortURL_part_000 cfg e2 db r2
          = (Written [(''Content-Type'', ''application/json'')] None
               (json_short_url (domain cfg @ ''/'' @ ShortCode row)), db)"
        by (rule create_existing_part_000[OF f2 fr2 g2 q2 in2])
      have n: "length (filter (\<lambda>x. LongURL x = u) (rows db)) = 1"
        using count_one[OF d, of u row] fr u1 by simp
      show ?thesis using h h2 n by auto
    next
      fix c
      assume fn: "find (\<lambda>x. LongURL x = removeQueryParams f1) (rows db) = None"
        and h: "handleCreateShortURL_part_000 cfg e1 db r1
          = (Written [(''Content-Type'', ''application/json'')] None
               (json_short_url (domain cfg @ ''/'' @ c)),
             \<lparr>rows = rows db @ [\<lparr>ID = nextID db, ShortCode = c, LongURL = removeQueryParams f1\<rparr>],
              nextID = nextID db + 1\<rparr>)"
      let ?new = "\<lparr>ID = nextID db, ShortCode = c, LongURL = removeQueryParams f1\<rparr>"
      let ?db1 = "\<lparr>rows = rows db @ [?new], nextID = nextID db + 1\<rparr>"
      have "find (\<lambda>x. LongURL x = removeQueryParams f2) (rows db @ [?new]) = Some ?new"
        using find_append_new[of "\<lambda>x. LongURL x = removeQueryParams f2" "rows db" ?new] fn u1 u2
        by simp
      then have fr2: "find (\<lambda>x. LongURL x = removeQueryParams f2) (rows ?db1) = Some ?new"
        by simp
      have h2: "handleCreateShortURL_part_000 cfg e2 ?db1 r2
          = (Written [(''Content-Type'', ''application/json'')] None
               (json_short_url (domain cfg @ ''/'' @ ShortCode ?new)), ?db1)"
        by (rule create_existing_part_000[OF f2 fr2 g2 q2 in2])
      have n: "length (filter (\<lambda>x. LongURL x = u) (rows ?db1)) = 1"
        using count_none[of LongURL u "rows db"] fn u1 by simp
      show ?thesis using h h2 n by auto
    qed
  }
qed


lemma client_Head_parsed: "url_Parse s = Inr u \<Longrightarrow> client_Head t s = t s"
  by (simp add: client_Head_def)

lemma client_Head_unparsable: "url_Parse s = Inl err \<Longrightarrow> client_Head t s = Inl HeadFailed"
  by (simp add: client_Head_def)

lemma create_unparsable_input:
  assumes "FormValue_long_url r \<noteq> []" "url_Parse (FormValue_long_url r) = Inl err"
  shows "handleCreateShortURL cfg e db r
      = (http_Error ''Failed to resolve redirection'' StatusInternalServerError, db)"
    and "handleCreateShortURL_part_000 cfg e db r
      = (http_Error (json_error ''Failed to resolve redirection'') StatusInternalServerError, db)"
  using assms
  by (simp_all add: handleCreateShortURL_def handleCreateShortURL_part_000_def getFinalURL_def
      client_Head_def)

lemma getFinalURL_no_redirect:
  "head s = Inr resp \<Longrightarrow> \<not> isRedirect (StatusCode resp) \<Longrightarrow> getFinalURL head s = Inr s"
  by (simp add: getFinalURL_def)


section \<open>Redirect resolution\<close>

text \<open>
  C7. The resolver treats a status as a redirect exactly when it lies in 300..399.
  For a probe that returns a response, a redirect status gives the URL of
  \<open>resp.Location()\<close> (or its error, when the header is absent or does not parse), and
  every other status gives the input unchanged. Only the response to the input URL is
  consulted: the result is the same in every network that answers the input URL in the
  same way, whatever the target itself answers, so a second hop is never followed.
\<close>

theorem getFinalURL_one_hop:
  "(isRedirect sc \<longleftrightarrow> 300 \<le> sc \<and> sc \<le> 399)
   \<and> (head urlStr = Inr resp \<longrightarrow>
        getFinalURL head urlStr =
          (if 300 \<le> StatusCode resp \<and> StatusCode resp \<le> 399
           then (case Location resp of Inl err \<Rightarrow> Inl err | Inr l \<Rightarrow> Inr (URL_String l))
           else Inr urlStr))
   \<and> (head' urlStr = head urlStr \<longrightarrow> getFinalURL head' urlStr = getFinalURL head urlStr)"
  by (simp add: isRedirect_def getFinalURL_def)

theorem getFinalURL_one_hop_witness:
  "redirecting ''http://short.example/a'' = Inr \<lparr>StatusCode = 302, Location = Inr target_url\<rparr>
   \<and> isRedirect 302
   \<and> getFinalURL redirecting ''http://short.example/a'' = Inr ''http://target.example/''
   \<and> getFinalURL redirecting ''http://target.example/'' = Inr ''http://further.example/''"
proof -
  have r1: "redirecting ''http://short.example/a'' = Inr \<lparr>StatusCode = 302, Location = Inr target_url\<rparr>"
    by (simp add: redirecting_def)
  have r2: "redirecting ''http://target.example/'' = Inr \<lparr>StatusCode = 301, Location = Inr further_url\<rparr>"
    by (simp add: redirecting_def)
  have s1: "URL_String target_url = ''http://target.example/''" by code_simp
  have s2: "URL_String further_url = ''http://further.example/''" by code_simp
  from getFinalURL_one_hop[of 302 redirecting "''http://short.example/a''"
      "\<lparr>StatusCode = 302, Location = Inr target_url\<rparr>"]
    getFinalURL_one_hop[of 302 redirecting "''http://target.example/''"
      "\<lparr>StatusCode = 301, Location = Inr further_url\<rparr>"]
    r1 r2 s1 s2
  show ?thesis by simp
qed


section \<open>Deleting\<close>

text \<open>
  C8. A request to the delete handler whose \<open>Authorization\<close> header differs from the
  configured admin key is answered with 401 and leaves the table as it was, whatever
  the method and the path; in particular with the path \<open>/api/delete/\<close>, whose code is
  empty, because the key is checked before the code.
\<close>

theorem delete_unauthorized:
  "Header_Authorization r \<noteq> adminKey cfg \<Longrightarrow>
     handleDeleteShortURL cfg e db r = (http_Error ''Unauthorized'' StatusUnauthorized, db)
     \<and> status (fst (handleDeleteShortURL cfg e db r)) = Some 401
     \<and> snd (handleDeleteShortURL cfg e db (r\<lparr>URL_Path := ''/api/delete/''\<rparr>)) = db
     \<and> status (fst (handleDeleteShortURL cfg e db (r\<lparr>URL_Path := ''/api/delete/''\<rparr>))) = Some 401"
  by (simp add: handleDeleteShortURL_def Let_def StatusUnauthorized_def)

theorem delete_unauthorized_witness:
  "Header_Authorization (delete_req ''abc'' ''guess'') \<noteq> adminKey cfg0
   \<and> status (fst (handleDeleteShortURL cfg0 (env_ok ''x'') db1 (delete_req ''abc'' ''guess''))) = Some 401
   \<and> snd (handleDeleteShortURL cfg0 (env_ok ''x'') db1 (delete_req ''abc'' ''guess'')) = db1
   \<and> status (fst (handleDeleteShortURL cfg0 (env_ok ''x'') db1 (delete_req [] []))) = Some 401"
proof -
  have 1: "Header_Authorization (delete_req ''abc'' ''guess'') \<noteq> adminKey cfg0"
    by (simp add: delete_req_def cfg0_def)
  have 2: "Header_Authorization (delete_req [] []) \<noteq> adminKey cfg0"
    by (simp add: delete_req_def cfg0_def)
  from delete_unauthorized[OF 1, of "env_ok ''x''" db1] delete_unauthorized[OF 2, of "env_ok ''x''" db1] 1
  show ?thesis by (simp add: StatusUnauthorized_def)
qed

text \<open>
  C9. An authorized request to \<open>/api/delete/{code}\<close> with a non-empty code, on which
  the datastore does not fail, is answered with 200. When no row has the code the table
  is unchanged; when a row has it (the codes being unique, as the schema requires),
  exactly that row is removed.
\<close>

theorem delete_authorized:
  assumes auth: "Header_Authorization r = adminKey cfg"
    and path: "URL_Path r = ''/api/delete/'' @ code"
    and code: "code \<noteq> []"
    and up: "\<not> execFails e"
  shows "status (fst (handleDeleteShortURL cfg e db r)) = Some 200
    \<and> (code \<notin> ShortCode ` set (rows db) \<longrightarrow> snd (handleDeleteShortURL cfg e db r) = db)
    \<and> (distinct (map ShortCode (rows db)) \<and> row \<in> set (rows db) \<and> ShortCode row = code \<longrightarrow>
          snd (handleDeleteShortURL cfg e db r) = db\<lparr>rows := remove1 row (rows db)\<rparr>)"
proof -
  have t: "TrimPrefix (URL_Path r) ''/api/delete/'' = code"
    unfolding path by (rule TrimPrefix_append)
  have h: "handleDeleteShortURL cfg e db r =
      (Written [] (Some StatusOK) (''Short URL deleted: '' @ domain cfg @ code @ [newline]),
       db\<lparr>rows := filter (\<lambda>x. ShortCode x \<noteq> code) (rows db)\<rparr>)"
    using auth code up
    by (simp add: handleDeleteShortURL_def t delete_by_short_code_def)
  have a: "code \<notin> ShortCode ` set (rows db) \<Longrightarrow>
      filter (\<lambda>x. ShortCode x \<noteq> code) (rows db) = rows db"
    by (rule filter_absent_code)
  have p: "distinct (map ShortCode (rows db)) \<Longrightarrow> row \<in> set (rows db) \<Longrightarrow> ShortCode row = code
     \<Longrightarrow> filter (\<lambda>x. ShortCode x \<noteq> code) (rows db) = remove1 row (rows db)"
    using filter_other_codes[of ShortCode "rows db" row] by simp
  have s: "status (fst (handleDeleteShortURL cfg e db r)) = Some 200"
    by (simp add: h StatusOK_def)
  have sa: "code \<notin> ShortCode ` set (rows db) \<Longrightarrow> snd (handleDeleteShortURL cfg e db r) = db"
    using a by (simp add: h)
  have sp: "distinct (map ShortCode (rows db)) \<Longrightarrow> row \<in> set (rows db) \<Longrightarrow> ShortCode row = code
     \<Longrightarrow> snd (handleDeleteShortURL cfg e db r) = db\<lparr>rows := remove1 row (rows db)\<rparr>"
    using p by (simp add: h)
  show ?thesis using s sa sp by blast
qed

theorem delete_authorized_witness:
  "status (fst (handleDeleteShortURL cfg0 (env_ok ''x'') db1 (delete_req ''abc'' ''DEFAULT_KEY''))) = Some 200
   \<and> rows (snd (handleDeleteShortURL cfg0 (env_ok ''x'') db1 (delete_req ''abc'' ''DEFAULT_KEY''))) = []
   \<and> snd (handleDeleteShortURL cfg0 (env_ok ''x'') db1 (delete_req ''abd'' ''DEFAULT_KEY'')) = db1"
proof -
  have 1: "Header_Authorization (delete_req c ''DEFAULT_KEY'') = adminKey cfg0" for c
    by (simp add: delete_req_def cfg0_def)
  have 2: "URL_Path (delete_req c ''DEFAULT_KEY'') = ''/api/delete/'' @ c" for c
    by (simp add: delete_req_def)
  have 3: "\<not> execFails (env_ok ''x'')" by (simp add: env_ok_def)
  have 4: "distinct (map ShortCode (rows db1))
     \<and> \<lparr>ID = 1, ShortCode = ''abc'', LongURL = ''http://example.com/''\<rparr> \<in> set (rows db1)"
    by (simp add: db1_def)
  have 5: "''abd'' \<notin> ShortCode ` set (rows db1)" by (simp add: db1_def)
  have 6: "''abc'' \<noteq> []" "''abd'' \<noteq> []" by simp_all
  have 7: "remove1 \<lparr>ID = 1, ShortCode = ''abc'', LongURL = ''http://example.com/''\<rparr> (rows db1) = []"
    by (simp add: db1_def)
  from delete_authorized[OF 1 2 6(1) 3, of db1
      "\<lparr>ID = 1, ShortCode = ''abc'', LongURL = ''http://example.com/''\<rparr>"]
    delete_authorized[OF 1 2 6(2) 3, of db1] 4 5 7
  show ?thesis by simp
qed


section \<open>Datastore errors\<close>

text \<open>
  C5. With a datastore that fails on every statement, the create handlers and the
  delete handler answer 500, but the redirect handler answers 404 for a code that is
  stored: \<open>handleShortURL\<close> sends every error of its lookup to \<open>http.NotFound\<close>, without
  the test for \<open>sql.ErrNoRows\<close> that the create handlers make. (The three lemmas on a
  failing datastore above say the same for every request.)
\<close>

theorem redirect_datastore_error_404:
  "handleShortURL env_db_down db1 (get_req ''/abc'') = (http_NotFound, db1)
   \<and> status (fst (handleShortURL env_db_down db1 (get_req ''/abc''))) = Some 404
   \<and> status (fst (handleCreateShortURL cfg0 env_db_down db1 (create_req ''http://example.com/x''))) = Some 500
   \<and> status (fst (handleCreateShortURL_part_000 cfg0 env_db_down db1 (create_req ''http://example.com/x''))) = Some 500
   \<and> status (fst (handleDeleteShortURL cfg0 env_db_down db1 (delete_req ''abc'' ''DEFAULT_KEY''))) = Some 500"
proof -
  have q: "queryFails env_db_down" and x: "execFails env_db_down"
    and g: "MustGenerate env_db_down = Some ''Zx3kLm9Qa''"
    by (simp_all add: env_db_down_def)
  have 1: "handleShortURL env_db_down db1 (get_req ''/abc'') = (http_NotFound, db1)"
    by (rule redirect_query_failure[OF q])
  have ne: "FormValue_long_url (create_req ''http://example.com/x'') \<noteq> []"
    by (simp add: create_req_def)
  have f: "getFinalURL (client_Head (Transport env_db_down))
      (FormValue_long_url (create_req ''http://example.com/x'')) = Inr ''http://example.com/x''"
    using probe_examples(6)[of "''Zx3kLm9Qa''"] by (simp add: env_ok_def env_db_down_def)
  have d: "Header_Authorization (delete_req ''abc'' ''DEFAULT_KEY'') = adminKey cfg0"
    "TrimPrefix (URL_Path (delete_req ''abc'' ''DEFAULT_KEY'')) ''/api/delete/'' \<noteq> []"
    by (simp_all add: delete_req_def cfg0_def TrimPrefix_def HasPrefix_def)
  show ?thesis
    using 1 create_query_failure[OF ne f g q] delete_exec_failure[OF d x]
    by (simp add: StatusNotFound_def)
qed


section \<open>Query stripping\<close>

text \<open>
  C10. \<open>removeQueryParams\<close> has no error result, and when \<open>url.Parse\<close> rejects its input
  it returns the input as it is. So a create request never fails at the query-stripping
  step: once the URL is resolved and a code is generated, with a datastore that does not
  fail, a URL not stored yet and a code not in use, the request is answered with 200 and
  the new row holds the resolved URL stripped of its query when it parses, and the
  resolved URL verbatim, query string included, when it does not. (A submitted URL that
  does not parse is not a resolved URL: the probe refuses it, see
  \<open>create_unparsable_input\<close>.)
\<close>

theorem removeQueryParams_unparsable:
  "(url_Parse s = Inl err \<longrightarrow> removeQueryParams s = s)
   \<and> (FormValue_long_url r \<noteq> []
       \<and> getFinalURL (client_Head (Transport e)) (FormValue_long_url r) = Inr f
       \<and> MustGenerate e = Some code \<and> \<not> queryFails e \<and> \<not> execFails e
       \<and> removeQueryParams f \<notin> LongURL ` set (rows db) \<and> code \<notin> ShortCode ` set (rows db) \<longrightarrow>
       snd (handleCreateShortURL cfg e db r)
         = \<lparr>rows = rows db @ [\<lparr>ID = nextID db, ShortCode = code,
               LongURL = (case url_Parse f of
                            Inl err' \<Rightarrow> f
                          | Inr p \<Rightarrow> URL_String (p\<lparr>RawQuery := []\<rparr>))\<rparr>],
            nextID = nextID db + 1\<rparr>
       \<and> snd (handleCreateShortURL_part_000 cfg e db r)
         = \<lparr>rows = rows db @ [\<lparr>ID = nextID db, ShortCode = code,
               LongURL = (case url_Parse f of
                            Inl err' \<Rightarrow> f
                          | Inr p \<Rightarrow> URL_String (p\<lparr>RawQuery := []\<rparr>))\<rparr>],
            nextID = nextID db + 1\<rparr>
       \<and> status (fst (handleCreateShortURL cfg e db r)) = Some 200
       \<and> status (fst (handleCreateShortURL_part_000 cfg e db r)) = Some 200)"
proof (intro conjI impI)
  assume "url_Parse s = Inl err"
  then show "removeQueryParams s = s" by (simp add: removeQueryParams_def)
next
  assume h: "FormValue_long_url r \<noteq> []
       \<and> getFinalURL (client_Head (Transport e)) (FormValue_long_url r) = Inr f
       \<and> MustGenerate e = Some code \<and> \<not> queryFails e \<and> \<not> execFails e
       \<and> removeQueryParams f \<notin> LongURL ` set (rows db) \<and> code \<notin> ShortCode ` set (rows db)"
  have rq: "(case url_Parse f of Inl err' \<Rightarrow> f | Inr p \<Rightarrow> URL_String (p\<lparr>RawQuery := []\<rparr>))
      = removeQueryParams f"
    by (simp add: removeQueryParams_def)
  have m: "handleCreateShortURL cfg e db r
     = (Written [] None (''Short URL created: '' @ domain cfg @ code @ [newline]),
        \<lparr>rows = rows db @ [\<lparr>ID = nextID db, ShortCode = code, LongURL = removeQueryParams f\<rparr>],
         nextID = nextID db + 1\<rparr>)"
    using h by (intro create_new) simp_all
  have j: "handleCreateShortURL_part_000 cfg e db r
     = (Written [(''Content-Type'', ''application/json'')] None
          (json_short_url (domain cfg @ ''/'' @ code)),
        \<lparr>rows = rows db @ [\<lparr>ID = nextID db, ShortCode = code, LongURL = removeQueryParams f\<rparr>],
         nextID = nextID db + 1\<rparr>)"
    using h by (intro create_new_part_000) simp_all
  show "snd (handleCreateShortURL cfg e db r)
         = \<lparr>rows = rows db @ [\<lparr>ID = nextID db, ShortCode = code,
               LongURL = (case url_Parse f of
                            Inl err' \<Rightarrow> f
                          | Inr p \<Rightarrow> URL_String (p\<lparr>RawQuery := []\<rparr>))\<rparr>],
            nextID = nextID db + 1\<rparr>"
    unfolding rq by (simp add: m)
  show "snd (handleCreateShortURL_part_000 cfg e db r)
         = \<lparr>rows = rows db @ [\<lparr>ID = nextID db, ShortCode = code,
               LongURL = (case url_Parse f of
                            Inl err' \<Rightarrow> f
                          | Inr p \<Rightarrow> URL_String (p\<lparr>RawQuery := []\<rparr>))\<rparr>],
            nextID = nextID db + 1\<rparr>"
    unfolding rq by (simp add: j)
  show "status (fst (handleCreateShortURL cfg e db r)) = Some 200"
    by (simp add: m StatusOK_def)
  show "status (fst (handleCreateShortURL_part_000 cfg e db r)) = Some 200"
    by (simp add: j StatusOK_def)
qed

theorem removeQueryParams_unparsable_witness:
  "url_Parse ''http://example.com/%zz?utm_source=x'' = Inl (EscapeError ''%zz'')
   \<and> removeQueryParams ''http://example.com/%zz?utm_source=x'' = ''http://example.com/%zz?utm_source=x''
   \<and> map LongURL (rows (snd (handleCreateShortURL cfg0 (env_ok ''Zx3kLm9Qa'') emptyDB
        (create_req ''http://example.com/page?x=1'')))) = [''http://example.com/page'']
   \<and> map LongURL (rows (snd (handleCreateShortURL_part_000 cfg0 (env_ok ''Zx3kLm9Qa'') emptyDB
        (create_req ''http://example.com/page?x=1'')))) = [''http://example.com/page'']
   \<and> status (fst (handleCreateShortURL cfg0 (env_ok ''Zx3kLm9Qa'') emptyDB
        (create_req ''http://example.com/page?x=1''))) = Some 200
   \<and> handleCreateShortURL cfg0 (env_ok ''Zx3kLm9Qa'') emptyDB
        (create_req ''http://example.com/%zz?utm_source=x'')
      = (http_Error ''Failed to resolve redirection'' 500, emptyDB)"
proof -
  have p: "url_Parse ''http://example.com/%zz?utm_source=x'' = Inl (EscapeError ''%zz'')"
    by code_simp
  have p1: "url_Parse ''http://example.com/page?x=1''
      = Inr (page_url\<lparr>RawQuery := ''x=1''\<rparr>)" by code_simp
  have s0: "URL_String (page_url\<lparr>RawQuery := []\<rparr>) = ''http://example.com/page''"
    by code_simp
  have hyp: "FormValue_long_url (create_req ''http://example.com/page?x=1'') \<noteq> []
       \<and> getFinalURL (client_Head (Transport (env_ok ''Zx3kLm9Qa'')))
            (FormValue_long_url (create_req ''http://example.com/page?x=1''))
          = Inr ''http://example.com/page?x=1''
       \<and> MustGenerate (env_ok ''Zx3kLm9Qa'') = Some ''Zx3kLm9Qa''
       \<and> \<not> queryFails (env_ok ''Zx3kLm9Qa'') \<and> \<not> execFails (env_ok ''Zx3kLm9Qa'')
       \<and> removeQueryParams ''http://example.com/page?x=1'' \<notin> LongURL ` set (rows emptyDB)
       \<and> ''Zx3kLm9Qa'' \<notin> ShortCode ` set (rows emptyDB)"
    by (simp add: create_req_nonempty probe_examples env_ok_simps rows_emptyDB)
  have bad: "handleCreateShortURL cfg0 (env_ok ''Zx3kLm9Qa'') emptyDB
        (create_req ''http://example.com/%zz?utm_source=x'')
      = (http_Error ''Failed to resolve redirection'' 500, emptyDB)"
    using create_unparsable_input(1)[where r = "create_req ''http://example.com/%zz?utm_source=x''"
        and err = "EscapeError ''%zz''" and cfg = cfg0 and e = "env_ok ''Zx3kLm9Qa''" and db = emptyDB] p
    by (simp add: create_req_def StatusInternalServerError_def)
  note T = removeQueryParams_unparsable[where s = "''http://example.com/%zz?utm_source=x''"
      and err = "EscapeError ''%zz''" and r = "create_req ''http://example.com/page?x=1''"
      and e = "env_ok ''Zx3kLm9Qa''" and f = "''http://example.com/page?x=1''"
      and code = "''Zx3kLm9Qa''" and db = emptyDB and cfg = cfg0]
  from T p have 1: "removeQueryParams ''http://example.com/%zz?utm_source=x''
      = ''http://example.com/%zz?utm_source=x''" by blast
  from T hyp have 2: "snd (handleCreateShortURL cfg0 (env_ok ''Zx3kLm9Qa'') emptyDB
        (create_req ''http://example.com/page?x=1''))
      = \<lparr>rows = rows emptyDB @ [\<lparr>ID = nextID emptyDB, ShortCode = ''Zx3kLm9Qa'',
               LongURL = (case url_Parse ''http://example.com/page?x=1'' of
                            Inl err' \<Rightarrow> ''http://example.com/page?x=1''
                          | Inr p \<Rightarrow> URL_String (p\<lparr>RawQuery := []\<rparr>))\<rparr>],
            nextID = nextID emptyDB + 1\<rparr>"
    and 3: "snd (handleCreateShortURL_part_000 cfg0 (env_ok ''Zx3kLm9Qa'') emptyDB
        (create_req ''http://example.com/page?x=1''))
      = \<lparr>rows = rows emptyDB @ [\<lparr>ID = nextID emptyDB, ShortCode = ''Zx3kLm9Qa'',
               LongURL = (case url_Parse ''http://example.com/page?x=1'' of
                            Inl err' \<Rightarrow> ''http://example.com/page?x=1''
                          | Inr p \<Rightarrow> URL_String (p\<lparr>RawQuery := []\<rparr>))\<rparr>],
            nextID = nextID emptyDB + 1\<rparr>"
    and 4: "status (fst (handleCreateShortURL cfg0 (env_ok ''Zx3kLm9Qa'') emptyDB
        (create_req ''http://example.com/page?x=1''))) = Some 200"
    by blast+
  show ?thesis using p 1 bad 4 by (simp add: 2 3 p1 s0 rows_emptyDB)
qed

text \<open>
  C6, as the code has it. Let a resolved URL consist of a part \<open>b\<close> without \<open>?\<close> and
  \<open>#\<close>, a non-empty query \<open>q\<close> and a fragment \<open>f\<close> (empty, or starting with \<open>#\<close>), and
  let it parse. Then the URL without its query, \<open>b @ f\<close>, parses to the same scheme, opaque
  part, user, host, path and fragment, with an empty query, and \<open>removeQueryParams\<close>
  returns for both the serialisation of that URL. Consequently two create requests
  whose URLs differ only in their non-empty queries and are not redirected leave, in a
  reachable table, exactly one row for the URL without the query (the first request being
  answered with 200, the second with a generator and a lookup that do not fail).
\<close>

theorem query_stripping:
  assumes b: "CHR ''?'' \<notin> set b" "CHR ''#'' \<notin> set b"
    and q: "q \<noteq> []" "CHR ''#'' \<notin> set q"
    and f: "f = [] \<or> hd f = CHR ''#''"
    and p: "url_Parse (b @ ''?'' @ q @ f) = Inr u"
  shows "(\<exists>v. url_Parse (b @ f) = Inr v
            \<and> Scheme v = Scheme u \<and> Opaque v = Opaque u \<and> User v = User u \<and> Host v = Host u
            \<and> Path v = Path u \<and> Fragment v = Fragment u \<and> RawQuery v = []
            \<and> removeQueryParams (b @ ''?'' @ q @ f) = URL_String v
            \<and> removeQueryParams (b @ f) = URL_String v)
    \<and> (q' \<noteq> [] \<and> CHR ''#'' \<notin> set q' \<and> url_Parse (b @ ''?'' @ q' @ f) = Inr u'
        \<and> db = run cfg evs
        \<and> FormValue_long_url r1 = b @ ''?'' @ q @ f \<and> FormValue_long_url r2 = b @ ''?'' @ q' @ f
        \<and> Transport e1 (b @ ''?'' @ q @ f) = Inr resp1 \<and> \<not> isRedirect (StatusCode resp1)
        \<and> Transport e2 (b @ ''?'' @ q' @ f) = Inr resp2 \<and> \<not> isRedirect (StatusCode resp2)
        \<and> MustGenerate e2 = Some c2 \<and> \<not> queryFails e2 \<longrightarrow>
        (status (fst (handleCreateShortURL cfg e1 db r1)) = Some 200 \<longrightarrow>
           length (filter (\<lambda>x. LongURL x = removeQueryParams (b @ f))
             (rows (snd (handleCreateShortURL cfg e2 (snd (handleCreateShortURL cfg e1 db r1)) r2)))) = 1)
        \<and> (status (fst (handleCreateShortURL_part_000 cfg e1 db r1)) = Some 200 \<longrightarrow>
           length (filter (\<lambda>x. LongURL x = removeQueryParams (b @ f))
             (rows (snd (handleCreateShortURL_part_000 cfg e2
                (snd (handleCreateShortURL_part_000 cfg e1 db r1)) r2)))) = 1))"
proof (intro conjI impI)
  show "\<exists>v. url_Parse (b @ f) = Inr v
            \<and> Scheme v = Scheme u \<and> Opaque v = Opaque u \<and> User v = User u \<and> Host v = Host u
            \<and> Path v = Path u \<and> Fragment v = Fragment u \<and> RawQuery v = []
            \<and> removeQueryParams (b @ ''?'' @ q @ f) = URL_String v
            \<and> removeQueryParams (b @ f) = URL_String v"
    by (rule strip_query_core[OF b q f p])
next
  assume h: "q' \<noteq> [] \<and> CHR ''#'' \<notin> set q' \<and> url_Parse (b @ ''?'' @ q' @ f) = Inr u'
        \<and> db = run cfg evs
        \<and> FormValue_long_url r1 = b @ ''?'' @ q @ f \<and> FormValue_long_url r2 = b @ ''?'' @ q' @ f
        \<and> Transport e1 (b @ ''?'' @ q @ f) = Inr resp1 \<and> \<not> isRedirect (StatusCode resp1)
        \<and> Transport e2 (b @ ''?'' @ q' @ f) = Inr resp2 \<and> \<not> isRedirect (StatusCode resp2)
        \<and> MustGenerate e2 = Some c2 \<and> \<not> queryFails e2"
    and ok: "status (fst (handleCreateShortURL cfg e1 db r1)) = Some 200"
  have u1: "removeQueryParams (b @ ''?'' @ q @ f) = removeQueryParams (b @ f)"
    using strip_query_core[OF b q f p] by auto
  have u2: "removeQueryParams (b @ ''?'' @ q' @ f) = removeQueryParams (b @ f)"
    using strip_query_core[OF b, of q' f u'] h f by auto
  have f1: "getFinalURL (client_Head (Transport e1)) (FormValue_long_url r1) = Inr (b @ ''?'' @ q @ f)"
    using h getFinalURL_no_redirect[of "client_Head (Transport e1)" "b @ ''?'' @ q @ f" resp1]
      client_Head_parsed[OF p] by simp
  have f2: "getFinalURL (client_Head (Transport e2)) (FormValue_long_url r2) = Inr (b @ ''?'' @ q' @ f)"
    using h getFinalURL_no_redirect[of "client_Head (Transport e2)" "b @ ''?'' @ q' @ f" resp2]
      client_Head_parsed[of "b @ ''?'' @ q' @ f" u'] by simp
  have in2: "FormValue_long_url r2 \<noteq> []" using h by simp
  have r: "db = run cfg evs" and g2: "MustGenerate e2 = Some c2" and q2: "\<not> queryFails e2"
    using h by simp_all
  from create_twice[OF r f1 f2 u1 u2 in2 g2 q2] ok
  show "length (filter (\<lambda>x. LongURL x = removeQueryParams (b @ f))
             (rows (snd (handleCreateShortURL cfg e2 (snd (handleCreateShortURL cfg e1 db r1)) r2)))) = 1"
    by blast
next
  assume h: "q' \<noteq> [] \<and> CHR ''#'' \<notin> set q' \<and> url_Parse (b @ ''?'' @ q' @ f) = Inr u'
        \<and> db = run cfg evs
        \<and> FormValue_long_url r1 = b @ ''?'' @ q @ f \<and> FormValue_long_url r2 = b @ ''?'' @ q' @ f
        \<and> Transport e1 (b @ ''?'' @ q @ f) = Inr resp1 \<and> \<not> isRedirect (StatusCode resp1)
        \<and> Transport e2 (b @ ''?'' @ q' @ f) = Inr resp2 \<and> \<not> isRedirect (StatusCode resp2)
        \<and> MustGenerate e2 = Some c2 \<and> \<not> queryFails e2"
    and ok: "status (fst (handleCreateShortURL_part_000 cfg e1 db r1)) = Some 200"
  have u1: "removeQueryParams (b @ ''?'' @ q @ f) = removeQueryParams (b @ f)"
    using strip_query_core[OF b q f p] by auto
  have u2: "removeQueryParams (b @ ''?'' @ q' @ f) = removeQueryParams (b @ f)"
    using strip_query_core[OF b, of q' f u'] h f by auto
  have f1: "getFinalURL (client_Head (Transport e1)) (FormValue_long_url r1) = Inr (b @ ''?'' @ q @ f)"
    using h getFinalURL_no_redirect[of "client_Head (Transport e1)" "b @ ''?'' @ q @ f" resp1]
      client_Head_parsed[OF p] by simp
  have f2: "getFinalURL (client_Head (Transport e2)) (FormValue_long_url r2) = Inr (b @ ''?'' @ q' @ f)"
    using h getFinalURL_no_redirect[of "client_Head (Transport e2)" "b @ ''?'' @ q' @ f" resp2]
      client_Head_parsed[of "b @ ''?'' @ q' @ f" u'] by simp
  have in2: "FormValue_long_url r2 \<noteq> []" using h by simp
  have r: "db = run cfg evs" and g2: "MustGenerate e2 = Some c2" and q2: "\<not> queryFails e2"
    using h by simp_all
  from create_twice[OF r f1 f2 u1 u2 in2 g2 q2] ok
  show "length (filter (\<lambda>x. LongURL x = removeQueryParams (b @ f))
             (rows (snd (handleCreateShortURL_part_000 cfg e2
                (snd (handleCreateShortURL_part_000 cfg e1 db r1)) r2)))) = 1"
    by blast
qed

theorem query_stripping_witness:
  "url_Parse ''http://example.com/page?x=1'' = Inr (page_url\<lparr>RawQuery := ''x=1''\<rparr>)
   \<and> removeQueryParams ''http://example.com/page?x=1'' = ''http://example.com/page''
   \<and> length (filter (\<lambda>x. LongURL x = ''http://example.com/page'')
        (rows (snd (handleCreateShortURL_part_000 cfg0 (env_ok ''Tq8pWv2Rs'')
          (snd (handleCreateShortURL_part_000 cfg0 (env_ok ''Zx3kLm9Qa'') emptyDB
             (create_req ''http://example.com/page?x=1'')))
          (create_req ''http://example.com/page?y=2''))))) = 1"
proof -
  let ?b = "''http://example.com/page''"
  have b: "CHR ''?'' \<notin> set ?b" "CHR ''#'' \<notin> set ?b" by simp_all
  have q: "''x=1'' \<noteq> []" "CHR ''#'' \<notin> set ''x=1''" by simp_all
  have f: "[] = [] \<or> hd [] = CHR ''#''" by simp
  have p1: "url_Parse ''http://example.com/page?x=1'' = Inr (page_url\<lparr>RawQuery := ''x=1''\<rparr>)"
    by code_simp
  have p: "url_Parse (?b @ ''?'' @ ''x=1'' @ []) = Inr (page_url\<lparr>RawQuery := ''x=1''\<rparr>)"
    using p1 by simp
  have p2: "url_Parse ''http://example.com/page?y=2'' = Inr (page_url\<lparr>RawQuery := ''y=2''\<rparr>)"
    by code_simp
  have p0: "url_Parse ''http://example.com/page'' = Inr page_url" by code_simp
  have s0: "URL_String page_url = ''http://example.com/page''" by code_simp
  have first: "handleCreateShortURL_part_000 cfg0 (env_ok ''Zx3kLm9Qa'') emptyDB
        (create_req ''http://example.com/page?x=1'')
      = (Written [(''Content-Type'', ''application/json'')] None
          (json_short_url (domain cfg0 @ ''/'' @ ''Zx3kLm9Qa'')),
        \<lparr>rows = rows emptyDB @ [\<lparr>ID = nextID emptyDB, ShortCode = ''Zx3kLm9Qa'',
            LongURL = removeQueryParams ''http://example.com/page?x=1''\<rparr>],
         nextID = nextID emptyDB + 1\<rparr>)"
    by (rule create_new_part_000)
       (simp_all add: create_req_nonempty probe_examples env_ok_simps rows_emptyDB)
  have ok: "status (fst (handleCreateShortURL_part_000 cfg0 (env_ok ''Zx3kLm9Qa'') emptyDB
        (create_req ''http://example.com/page?x=1''))) = Some 200"
    by (simp add: first StatusOK_def)
  have hyp: "''y=2'' \<noteq> [] \<and> CHR ''#'' \<notin> set ''y=2''
        \<and> url_Parse (?b @ ''?'' @ ''y=2'' @ []) = Inr (page_url\<lparr>RawQuery := ''y=2''\<rparr>)
        \<and> emptyDB = run cfg0 []
        \<and> FormValue_long_url (create_req ''http://example.com/page?x=1'') = ?b @ ''?'' @ ''x=1'' @ []
        \<and> FormValue_long_url (create_req ''http://example.com/page?y=2'') = ?b @ ''?'' @ ''y=2'' @ []
        \<and> Transport (env_ok ''Zx3kLm9Qa'') (?b @ ''?'' @ ''x=1'' @ [])
            = Inr \<lparr>StatusCode = 200, Location = Inl ErrNoLocation\<rparr>
        \<and> \<not> isRedirect (StatusCode \<lparr>StatusCode = 200, Location = Inl ErrNoLocation\<rparr>)
        \<and> Transport (env_ok ''Tq8pWv2Rs'') (?b @ ''?'' @ ''y=2'' @ [])
            = Inr \<lparr>StatusCode = 200, Location = Inl ErrNoLocation\<rparr>
        \<and> \<not> isRedirect (StatusCode \<lparr>StatusCode = 200, Location = Inl ErrNoLocation\<rparr>)
        \<and> MustGenerate (env_ok ''Tq8pWv2Rs'') = Some ''Tq8pWv2Rs'' \<and> \<not> queryFails (env_ok ''Tq8pWv2Rs'')"
    using p2 ok200_examples by (simp add: run_Nil create_req_def env_ok_def isRedirect_def)
  note T = query_stripping[OF b q f p, where q' = "''y=2''" and u' = "page_url\<lparr>RawQuery := ''y=2''\<rparr>"
      and db = emptyDB and cfg = cfg0 and evs = "[]"
      and ?r1.0 = "create_req ''http://example.com/page?x=1''"
      and ?r2.0 = "create_req ''http://example.com/page?y=2''"
      and ?e1.0 = "env_ok ''Zx3kLm9Qa''" and ?e2.0 = "env_ok ''Tq8pWv2Rs''"
      and ?resp1.0 = "\<lparr>StatusCode = 200, Location = Inl ErrNoLocation\<rparr>"
      and ?resp2.0 = "\<lparr>StatusCode = 200, Location = Inl ErrNoLocation\<rparr>"
      and ?c2.0 = "''Tq8pWv2Rs''"]
  from T have A: "\<exists>v. url_Parse (?b @ []) = Inr v
      \<and> removeQueryParams (?b @ ''?'' @ ''x=1'' @ []) = URL_String v
      \<and> removeQueryParams (?b @ []) = URL_String v" by blast
  then have r: "removeQueryParams ''http://example.com/page?x=1'' = ''http://example.com/page''"
    and r0: "removeQueryParams ''http://example.com/page'' = ''http://example.com/page''"
    using p0 s0 by auto
  from T hyp ok have "length (filter (\<lambda>x. LongURL x = removeQueryParams (?b @ []))
        (rows (snd (handleCreateShortURL_part_000 cfg0 (env_ok ''Tq8pWv2Rs'')
          (snd (handleCreateShortURL_part_000 cfg0 (env_ok ''Zx3kLm9Qa'') emptyDB
             (create_req ''http://example.com/page?x=1'')))
          (create_req ''http://example.com/page?y=2''))))) = 1"
    by blast
  then show ?thesis using p1 r r0 by simp
qed

text \<open>
  C6 as stated fails at an empty query: \<open>url.Parse\<close> records the lone \<open>?\<close> in
  \<open>ForceQuery\<close>, which \<open>removeQueryParams\<close> does not clear, so
  \<open>http://example.com/page?\<close> is stored as it is and \<open>http://example.com/page?y=2\<close>
  gets a row of its own. And what is stored is the serialisation of the parsed URL, not
  the text of the submitted one: the scheme comes out in lower case.
\<close>

theorem query_stripping_counterexample:
  "removeQueryParams ''http://example.com/page?'' = ''http://example.com/page?''
   \<and> removeQueryParams ''http://example.com/page?y=2'' = ''http://example.com/page''
   \<and> map LongURL (rows (run cfg0
        [CreateRequest_part_000 (env_ok ''Zx3kLm9Qa'') (create_req ''http://example.com/page?''),
         CreateRequest_part_000 (env_ok ''Tq8pWv2Rs'') (create_req ''http://example.com/page?y=2'')]))
      = [''http://example.com/page?'', ''http://example.com/page'']
   \<and> removeQueryParams ''HTTP://EXAMPLE.COM/page?x=1'' = ''http://EXAMPLE.COM/page''"
proof -
  have a: "removeQueryParams ''http://example.com/page?'' = ''http://example.com/page?''" by code_simp
  have b: "removeQueryParams ''HTTP://EXAMPLE.COM/page?x=1'' = ''http://EXAMPLE.COM/page''" by code_simp
  have s1: "handleCreateShortURL_part_000 cfg0 (env_ok ''Zx3kLm9Qa'') emptyDB (create_req ''http://example.com/page?'')
      = (Written [(''Content-Type'', ''application/json'')] None
          (json_short_url (domain cfg0 @ ''/'' @ ''Zx3kLm9Qa'')),
        \<lparr>rows = rows emptyDB @ [\<lparr>ID = nextID emptyDB, ShortCode = ''Zx3kLm9Qa'',
            LongURL = removeQueryParams ''http://example.com/page?''\<rparr>],
         nextID = nextID emptyDB + 1\<rparr>)"
    by (rule create_new_part_000)
       (simp_all add: create_req_nonempty probe_examples env_ok_simps rows_emptyDB)
  let ?d1 = "\<lparr>rows = [\<lparr>ID = 1, ShortCode = ''Zx3kLm9Qa'', LongURL = ''http://example.com/page?''\<rparr>], nextID = 2\<rparr>"
  have s1': "snd (handleCreateShortURL_part_000 cfg0 (env_ok ''Zx3kLm9Qa'') emptyDB (create_req ''http://example.com/page?'')) = ?d1"
    by (simp add: s1 a rows_emptyDB)
  have s2: "handleCreateShortURL_part_000 cfg0 (env_ok ''Tq8pWv2Rs'') ?d1 (create_req ''http://example.com/page?y=2'')
      = (Written [(''Content-Type'', ''application/json'')] None
          (json_short_url (domain cfg0 @ ''/'' @ ''Tq8pWv2Rs'')),
        \<lparr>rows = rows ?d1 @ [\<lparr>ID = nextID ?d1, ShortCode = ''Tq8pWv2Rs'',
            LongURL = removeQueryParams ''http://example.com/page?y=2''\<rparr>],
         nextID = nextID ?d1 + 1\<rparr>)"
    by (rule create_new_part_000)
       (simp_all add: create_req_nonempty probe_examples env_ok_simps rq2)
  have "map LongURL (rows (run cfg0
        [CreateRequest_part_000 (env_ok ''Zx3kLm9Qa'') (create_req ''http://example.com/page?''),
         CreateRequest_part_000 (env_ok ''Tq8pWv2Rs'') (create_req ''http://example.com/page?y=2'')]))
      = [''http://example.com/page?'', ''http://example.com/page'']"
    by (simp add: run_def s1' s2 rq2)
  then show ?thesis using a b rq2 by blast
qed


section \<open>Creating\<close>

text \<open>
  C3. In every table reached from the empty one by any sequence of redirect, create
  and delete requests, in any environment, no two rows have the same \<open>long_url\<close>: a
  create request inserts only after its lookup by \<open>long_url\<close> has found no row.
\<close>

theorem long_url_unique: "distinct (map LongURL (rows (run cfg evs)))"
  using unique_rows_run[of cfg evs] by (simp add: unique_rows_def)

text \<open>
  C1, as the code has it. Let two create requests for the same canonical URL \<open>u\<close>
  follow each other on any table, with generators and lookups that do not fail and,
  when \<open>u\<close> is not stored yet, an insert that succeeds (the datastore does not fail and
  the generated code is not in use). Then both answers carry the same short URL, the
  second request changes nothing, and afterwards the table holds one row for \<open>u\<close> if it
  held none and as many as before otherwise: exactly one row whenever it held at most
  one, as every table reached from the empty one does. This holds for the handler of
  \<open>main.go\<close> and for the one of the second source file.
\<close>

theorem create_idempotent:
  assumes in1: "FormValue_long_url r1 \<noteq> []" and in2: "FormValue_long_url r2 \<noteq> []"
    and f1: "getFinalURL (client_Head (Transport e1)) (FormValue_long_url r1) = Inr f1"
    and f2: "getFinalURL (client_Head (Transport e2)) (FormValue_long_url r2) = Inr f2"
    and u1: "removeQueryParams f1 = u" and u2: "removeQueryParams f2 = u"
    and g1: "MustGenerate e1 = Some c1" and g2: "MustGenerate e2 = Some c2"
    and q1: "\<not> queryFails e1" and q2: "\<not> queryFails e2"
    and ins: "u \<notin> LongURL ` set (rows db) \<longrightarrow> \<not> execFails e1 \<and> c1 \<notin> ShortCode ` set (rows db)"
  shows "(\<exists>c. (fst (handleCreateShortURL cfg e1 db r1)
              = Written [] None (''Short URL created: '' @ domain cfg @ c @ [newline])
            \<or> fst (handleCreateShortURL cfg e1 db r1)
              = Written [] None (''Short URL already exists: '' @ domain cfg @ c @ [newline]))
         \<and> fst (handleCreateShortURL cfg e2 (snd (handleCreateShortURL cfg e1 db r1)) r2)
              = Written [] None (''Short URL already exists: '' @ domain cfg @ c @ [newline])
         \<and> snd (handleCreateShortURL cfg e2 (snd (handleCreateShortURL cfg e1 db r1)) r2)
              = snd (handleCreateShortURL cfg e1 db r1)
         \<and> length (filter (\<lambda>x. LongURL x = u)
              (rows (snd (handleCreateShortURL cfg e2 (snd (handleCreateShortURL cfg e1 db r1)) r2))))
            = max 1 (length (filter (\<lambda>x. LongURL x = u) (rows db))))
    \<and> (\<exists>c. fst (handleCreateShortURL_part_000 cfg e1 db r1)
              = Written [(''Content-Type'', ''application/json'')] None
                  (json_short_url (domain cfg @ ''/'' @ c))
         \<and> fst (handleCreateShortURL_part_000 cfg e2 (snd (handleCreateShortURL_part_000 cfg e1 db r1)) r2)
              = Written [(''Content-Type'', ''application/json'')] None
                  (json_short_url (domain cfg @ ''/'' @ c))
         \<and> snd (handleCreateShortURL_part_000 cfg e2 (snd (handleCreateShortURL_part_000 cfg e1 db r1)) r2)
              = snd (handleCreateShortURL_part_000 cfg e1 db r1)
         \<and> length (filter (\<lambda>x. LongURL x = u)
              (rows (snd (handleCreateShortURL_part_000 cfg e2
                 (snd (handleCreateShortURL_part_000 cfg e1 db r1)) r2))))
            = max 1 (length (filter (\<lambda>x. LongURL x = u) (rows db))))
    \<and> (length (filter (\<lambda>x. LongURL x = u) (rows db)) \<le> 1 \<longrightarrow>
         length (filter (\<lambda>x. LongURL x = u)
           (rows (snd (handleCreateShortURL cfg e2 (snd (handleCreateShortURL cfg e1 db r1)) r2)))) = 1
         \<and> length (filter (\<lambda>x. LongURL x = u)
           (rows (snd (handleCreateShortURL_part_000 cfg e2
              (snd (handleCreateShortURL_part_000 cfg e1 db r1)) r2)))) = 1)"
proof (cases "find (\<lambda>x. LongURL x = u) (rows db)")
  case (Some row)
  have k: "1 \<le> length (filter (\<lambda>x. LongURL x = u) (rows db))"
    by (rule count_pos[OF Some])
  have fr1: "find (\<lambda>x. LongURL x = removeQueryParams f1) (rows db) = Some row"
    and fr2: "find (\<lambda>x. LongURL x = removeQueryParams f2) (rows db) = Some row"
    using Some u1 u2 by simp_all
  have m1: "handleCreateShortURL cfg e1 db r1
      = (Written [] None (''Short URL already exists: '' @ domain cfg @ ShortCode row @ [newline]), db)"
    by (rule create_existing[OF f1 fr1 g1 q1 in1])
  have m2: "handleCreateShortURL cfg e2 db r2
      = (Written [] None (''Short URL already exists: '' @ domain cfg @ ShortCode row @ [newline]), db)"
    by (rule create_existing[OF f2 fr2 g2 q2 in2])
  have j1: "handleCreateShortURL_part_000 cfg e1 db r1
      = (Written [(''Content-Type'', ''application/json'')] None
           (json_short_url (domain cfg @ ''/'' @ ShortCode row)), db)"
    by (rule create_existing_part_000[OF f1 fr1 g1 q1 in1])
  have j2: "handleCreateShortURL_part_000 cfg e2 db r2
      = (Written [(''Content-Type'', ''application/json'')] None
           (json_short_url (domain cfg @ ''/'' @ ShortCode row)), db)"
    by (rule create_existing_part_000[OF f2 fr2 g2 q2 in2])
  show ?thesis
  proof (intro conjI impI exI[of _ "ShortCode row"])
  qed (insert k, simp_all add: m1 m2 j1 j2 max_def)
next
  case None
  then have absent: "u \<notin> LongURL ` set (rows db)" by (simp add: find_LongURL_None)
  then have x1: "\<not> execFails e1" and fresh: "c1 \<notin> ShortCode ` set (rows db)"
    using ins by simp_all
  have k: "filter (\<lambda>x. LongURL x = u) (rows db) = []" by (rule count_none[OF None])
  let ?new = "\<lparr>ID = nextID db, ShortCode = c1, LongURL = u\<rparr>"
  let ?db1 = "\<lparr>rows = rows db @ [?new], nextID = nextID db + 1\<rparr>"
  have a1: "removeQueryParams f1 \<notin> LongURL ` set (rows db)" using absent u1 by simp
  have m1: "handleCreateShortURL cfg e1 db r1
      = (Written [] None (''Short URL created: '' @ domain cfg @ c1 @ [newline]), ?db1)"
    using create_new[OF in1 f1 g1 q1 x1 a1 fresh] by (simp add: u1)
  have j1: "handleCreateShortURL_part_000 cfg e1 db r1
      = (Written [(''Content-Type'', ''application/json'')] None
           (json_short_url (domain cfg @ ''/'' @ c1)), ?db1)"
    using create_new_part_000[OF in1 f1 g1 q1 x1 a1 fresh] by (simp add: u1)
  have "find (\<lambda>x. LongURL x = u) (rows db @ [?new]) = Some ?new"
    using find_append_new[of "\<lambda>x. LongURL x = u" "rows db" ?new] None by simp
  then have fr2: "find (\<lambda>x. LongURL x = removeQueryParams f2) (rows ?db1) = Some ?new"
    by (simp add: u2)
  have m2: "handleCreateShortURL cfg e2 ?db1 r2
      = (Written [] None (''Short URL already exists: '' @ domain cfg @ ShortCode ?new @ [newline]), ?db1)"
    by (rule create_existing[OF f2 fr2 g2 q2 in2])
  have j2: "handleCreateShortURL_part_000 cfg e2 ?db1 r2
      = (Written [(''Content-Type'', ''application/json'')] None
           (json_short_url (domain cfg @ ''/'' @ ShortCode ?new)), ?db1)"
    by (rule create_existing_part_000[OF f2 fr2 g2 q2 in2])
  show ?thesis
  proof (intro conjI impI exI[of _ c1])
  qed (insert k, simp_all add: m1 m2 j1 j2)
qed

theorem create_idempotent_witness:
  "fst (handleCreateShortURL cfg0 (env_ok ''Zx3kLm9Qa'') emptyDB (create_req ''http://example.com/page?x=1''))
     = Written [] None (''Short URL created: http://localhostZx3kLm9Qa'' @ [newline])
   \<and> fst (handleCreateShortURL cfg0 (env_ok ''Tq8pWv2Rs'')
        (snd (handleCreateShortURL cfg0 (env_ok ''Zx3kLm9Qa'') emptyDB (create_req ''http://example.com/page?x=1'')))
        (create_req ''http://example.com/page?y=2''))
     = Written [] None (''Short URL already exists: http://localhostZx3kLm9Qa'' @ [newline])
   \<and> length (filter (\<lambda>x. LongURL x = ''http://example.com/page'')
        (rows (snd (handleCreateShortURL cfg0 (env_ok ''Tq8pWv2Rs'')
          (snd (handleCreateShortURL cfg0 (env_ok ''Zx3kLm9Qa'') emptyDB (create_req ''http://example.com/page?x=1'')))
          (create_req ''http://example.com/page?y=2''))))) = 1
   \<and> fst (handleCreateShortURL_part_000 cfg0 (env_ok ''Zx3kLm9Qa'') emptyDB (create_req ''http://example.com/page?x=1''))
     = Written [(''Content-Type'', ''application/json'')] None (json_short_url ''http://localhost/Zx3kLm9Qa'')
   \<and> fst (handleCreateShortURL_part_000 cfg0 (env_ok ''Tq8pWv2Rs'')
        (snd (handleCreateShortURL_part_000 cfg0 (env_ok ''Zx3kLm9Qa'') emptyDB (create_req ''http://example.com/page?x=1'')))
        (create_req ''http://example.com/page?y=2''))
     = Written [(''Content-Type'', ''application/json'')] None (json_short_url ''http://localhost/Zx3kLm9Qa'')
   \<and> length (filter (\<lambda>x. LongURL x = ''http://example.com/page'')
        (rows (snd (handleCreateShortURL_part_000 cfg0 (env_ok ''Tq8pWv2Rs'')
          (snd (handleCreateShortURL_part_000 cfg0 (env_ok ''Zx3kLm9Qa'') emptyDB (create_req ''http://example.com/page?x=1'')))
          (create_req ''http://example.com/page?y=2''))))) = 1"
proof -
  let ?d1 = "\<lparr>rows = [\<lparr>ID = 1, ShortCode = ''Zx3kLm9Qa'', LongURL = ''http://example.com/page''\<rparr>],
              nextID = 2\<rparr>"
  have ne: "FormValue_long_url (create_req ''http://example.com/page?x=1'') \<noteq> []"
    "FormValue_long_url (create_req ''http://example.com/page?y=2'') \<noteq> []"
    by (simp_all add: create_req_def)
  have ins: "''http://example.com/page'' \<notin> LongURL ` set (rows emptyDB) \<longrightarrow>
      \<not> execFails (env_ok ''Zx3kLm9Qa'') \<and> ''Zx3kLm9Qa'' \<notin> ShortCode ` set (rows emptyDB)"
    by (simp add: env_ok_simps rows_emptyDB)
  have "handleCreateShortURL cfg0 (env_ok ''Zx3kLm9Qa'') emptyDB (create_req ''http://example.com/page?x=1'')
      = (Written [] None (''Short URL created: '' @ domain cfg0 @ ''Zx3kLm9Qa'' @ [newline]),
        \<lparr>rows = rows emptyDB @ [\<lparr>ID = nextID emptyDB, ShortCode = ''Zx3kLm9Qa'',
            LongURL = removeQueryParams ''http://example.com/page?x=1''\<rparr>],
         nextID = nextID emptyDB + 1\<rparr>)"
    by (rule create_new)
       (simp_all add: create_req_nonempty probe_examples env_ok_simps rows_emptyDB)
  then have m1: "handleCreateShortURL cfg0 (env_ok ''Zx3kLm9Qa'') emptyDB (create_req ''http://example.com/page?x=1'')
      = (Written [] None (''Short URL created: http://localhostZx3kLm9Qa'' @ [newline]), ?d1)"
    by (simp add: rq1 rows_emptyDB cfg0_def)
  have "handleCreateShortURL_part_000 cfg0 (env_ok ''Zx3kLm9Qa'') emptyDB (create_req ''http://example.com/page?x=1'')
      = (Written [(''Content-Type'', ''application/json'')] None
          (json_short_url (domain cfg0 @ ''/'' @ ''Zx3kLm9Qa'')),
        \<lparr>rows = rows emptyDB @ [\<lparr>ID = nextID emptyDB, ShortCode = ''Zx3kLm9Qa'',
            LongURL = removeQueryParams ''http://example.com/page?x=1''\<rparr>],
         nextID = nextID emptyDB + 1\<rparr>)"
    by (rule create_new_part_000)
       (simp_all add: create_req_nonempty probe_examples env_ok_simps rows_emptyDB)
  then have j1: "handleCreateShortURL_part_000 cfg0 (env_ok ''Zx3kLm9Qa'') emptyDB (create_req ''http://example.com/page?x=1'')
      = (Written [(''Content-Type'', ''application/json'')] None
          (json_short_url ''http://localhost/Zx3kLm9Qa''), ?d1)"
    by (simp add: rq1 rows_emptyDB cfg0_def)
  have "handleCreateShortURL cfg0 (env_ok ''Tq8pWv2Rs'') ?d1 (create_req ''http://example.com/page?y=2'')
      = (Written [] None (''Short URL already exists: '' @ domain cfg0
           @ ShortCode \<lparr>ID = 1, ShortCode = ''Zx3kLm9Qa'', LongURL = ''http://example.com/page''\<rparr>
           @ [newline]), ?d1)"
    by (rule create_existing[where f = "''http://example.com/page?y=2''"])
       (simp_all add: create_req_nonempty probe_examples env_ok_simps rq2)
  then have m2: "fst (handleCreateShortURL cfg0 (env_ok ''Tq8pWv2Rs'') ?d1 (create_req ''http://example.com/page?y=2''))
      = Written [] None (''Short URL already exists: http://localhostZx3kLm9Qa'' @ [newline])"
    by (simp add: cfg0_def)
  have "handleCreateShortURL_part_000 cfg0 (env_ok ''Tq8pWv2Rs'') ?d1 (create_req ''http://example.com/page?y=2'')
      = (Written [(''Content-Type'', ''application/json'')] None
          (json_short_url (domain cfg0 @ ''/''
           @ ShortCode \<lparr>ID = 1, ShortCode = ''Zx3kLm9Qa'', LongURL = ''http://example.com/page''\<rparr>)), ?d1)"
    by (rule create_existing_part_000[where f = "''http://example.com/page?y=2''"])
       (simp_all add: create_req_nonempty probe_examples env_ok_simps rq2)
  then have j2: "fst (handleCreateShortURL_part_000 cfg0 (env_ok ''Tq8pWv2Rs'') ?d1 (create_req ''http://example.com/page?y=2''))
      = Written [(''Content-Type'', ''application/json'')] None
          (json_short_url ''http://localhost/Zx3kLm9Qa'')"
    by (simp add: cfg0_def)
  note T = create_idempotent[where cfg = cfg0 and db = emptyDB
        and ?e1.0 = "env_ok ''Zx3kLm9Qa''" and ?e2.0 = "env_ok ''Tq8pWv2Rs''"
        and ?r1.0 = "create_req ''http://example.com/page?x=1''"
        and ?r2.0 = "create_req ''http://example.com/page?y=2''",
      OF ne probe_examples(1) probe_examples(2) rq1 rq2 env_ok_simps(1) env_ok_simps(1)
         env_ok_simps(2) env_ok_simps(2) ins]
  have k: "length (filter (\<lambda>x. LongURL x = ''http://example.com/page'') (rows emptyDB)) \<le> 1"
    by (simp add: rows_emptyDB)
  from T k have cnt: "length (filter (\<lambda>x. LongURL x = ''http://example.com/page'')
        (rows (snd (handleCreateShortURL cfg0 (env_ok ''Tq8pWv2Rs'')
          (snd (handleCreateShortURL cfg0 (env_ok ''Zx3kLm9Qa'') emptyDB (create_req ''http://example.com/page?x=1'')))
          (create_req ''http://example.com/page?y=2''))))) = 1"
    and cnt': "length (filter (\<lambda>x. LongURL x = ''http://example.com/page'')
        (rows (snd (handleCreateShortURL_part_000 cfg0 (env_ok ''Tq8pWv2Rs'')
          (snd (handleCreateShortURL_part_000 cfg0 (env_ok ''Zx3kLm9Qa'') emptyDB (create_req ''http://example.com/page?x=1'')))
          (create_req ''http://example.com/page?y=2''))))) = 1"
    by blast+
  have a: "fst (handleCreateShortURL cfg0 (env_ok ''Zx3kLm9Qa'') emptyDB (create_req ''http://example.com/page?x=1''))
     = Written [] None (''Short URL created: http://localhostZx3kLm9Qa'' @ [newline])"
    by (simp add: m1)
  have b: "fst (handleCreateShortURL cfg0 (env_ok ''Tq8pWv2Rs'')
        (snd (handleCreateShortURL cfg0 (env_ok ''Zx3kLm9Qa'') emptyDB (create_req ''http://example.com/page?x=1'')))
        (create_req ''http://example.com/page?y=2''))
     = Written [] None (''Short URL already exists: http://localhostZx3kLm9Qa'' @ [newline])"
    using m2 by (simp add: m1)
  have c: "fst (handleCreateShortURL_part_000 cfg0 (env_ok ''Zx3kLm9Qa'') emptyDB (create_req ''http://example.com/page?x=1''))
     = Written [(''Content-Type'', ''application/json'')] None (json_short_url ''http://localhost/Zx3kLm9Qa'')"
    by (simp add: j1)
  have d: "fst (handleCreateShortURL_part_000 cfg0 (env_ok ''Tq8pWv2Rs'')
        (snd (handleCreateShortURL_part_000 cfg0 (env_ok ''Zx3kLm9Qa'') emptyDB (create_req ''http://example.com/page?x=1'')))
        (create_req ''http://example.com/page?y=2''))
     = Written [(''Content-Type'', ''application/json'')] None (json_short_url ''http://localhost/Zx3kLm9Qa'')"
    using j2 by (simp add: j1)
  show ?thesis using a b c d cnt cnt' by blast
qed

text \<open>
  C1 as stated fails where the first create fails. On a table that holds the code
  \<open>abc\<close>, a create request whose generated code is \<open>abc\<close> is refused by the \<open>UNIQUE\<close>
  column and answered with 500, and the same request with another code is answered with
  a short URL: the two answers do not carry the same short URL. And on a table with two
  rows for the URL, which the schema allows (\<open>long_url\<close> has no constraint) although no
  sequence of requests produces it, two rows remain.
\<close>

theorem create_idempotent_counterexample:
  "handleCreateShortURL cfg0 (env_ok ''abc'') db1 (create_req ''http://example.com/page?x=1'')
     = (http_Error ''Failed to create short URL'' 500, db1)
   \<and> fst (handleCreateShortURL cfg0 (env_ok ''Tq8pWv2Rs'') db1 (create_req ''http://example.com/page?x=1''))
     = Written [] None (''Short URL created: http://localhostTq8pWv2Rs'' @ [newline])
   \<and> handleCreateShortURL_part_000 cfg0 (env_ok ''abc'') db1 (create_req ''http://example.com/page?x=1'')
     = (http_Error (json_error ''Failed to create short URL'') 500, db1)
   \<and> fst (handleCreateShortURL_part_000 cfg0 (env_ok ''Tq8pWv2Rs'') db1 (create_req ''http://example.com/page?x=1''))
     = Written [(''Content-Type'', ''application/json'')] None (json_short_url ''http://localhost/Tq8pWv2Rs'')
   \<and> length (filter (\<lambda>x. LongURL x = ''http://example.com/page'')
        (rows (snd (handleCreateShortURL cfg0 (env_ok ''Tq8pWv2Rs'')
          (snd (handleCreateShortURL cfg0 (env_ok ''Zx3kLm9Qa'') db_dup (create_req ''http://example.com/page?x=1'')))
          (create_req ''http://example.com/page?y=2''))))) = 2"
proof -
  have c1: "handleCreateShortURL cfg0 (env_ok ''abc'') db1 (create_req ''http://example.com/page?x=1'')
      = (http_Error ''Failed to create short URL'' StatusInternalServerError, db1)"
    and c2: "handleCreateShortURL_part_000 cfg0 (env_ok ''abc'') db1 (create_req ''http://example.com/page?x=1'')
      = (http_Error (json_error ''Failed to create short URL'') StatusInternalServerError, db1)"
    by (rule create_insert_refused[where f = "''http://example.com/page?x=1''"],
        simp_all add: create_req_nonempty probe_examples env_ok_simps rq1 db1_def)+
  have n1: "handleCreateShortURL cfg0 (env_ok ''Tq8pWv2Rs'') db1 (create_req ''http://example.com/page?x=1'')
      = (Written [] None (''Short URL created: '' @ domain cfg0 @ ''Tq8pWv2Rs'' @ [newline]),
        \<lparr>rows = rows db1 @ [\<lparr>ID = nextID db1, ShortCode = ''Tq8pWv2Rs'',
            LongURL = removeQueryParams ''http://example.com/page?x=1''\<rparr>],
         nextID = nextID db1 + 1\<rparr>)"
    by (rule create_new)
       (simp_all add: create_req_nonempty probe_examples env_ok_simps rq1 db1_def)
  have n2: "handleCreateShortURL_part_000 cfg0 (env_ok ''Tq8pWv2Rs'') db1 (create_req ''http://example.com/page?x=1'')
      = (Written [(''Content-Type'', ''application/json'')] None
          (json_short_url (domain cfg0 @ ''/'' @ ''Tq8pWv2Rs'')),
        \<lparr>rows = rows db1 @ [\<lparr>ID = nextID db1, ShortCode = ''Tq8pWv2Rs'',
            LongURL = removeQueryParams ''http://example.com/page?x=1''\<rparr>],
         nextID = nextID db1 + 1\<rparr>)"
    by (rule create_new_part_000)
       (simp_all add: create_req_nonempty probe_examples env_ok_simps rq1 db1_def)
  let ?row = "\<lparr>ID = 1, ShortCode = ''abc'', LongURL = ''http://example.com/page''\<rparr>"
  have d1: "handleCreateShortURL cfg0 (env_ok ''Zx3kLm9Qa'') db_dup (create_req ''http://example.com/page?x=1'')
      = (Written [] None (''Short URL already exists: '' @ domain cfg0 @ ShortCode ?row @ [newline]), db_dup)"
    by (rule create_existing[where f = "''http://example.com/page?x=1''"])
       (simp_all add: create_req_nonempty probe_examples env_ok_simps rq1 db_dup_def)
  have d2: "handleCreateShortURL cfg0 (env_ok ''Tq8pWv2Rs'') db_dup (create_req ''http://example.com/page?y=2'')
      = (Written [] None (''Short URL already exists: '' @ domain cfg0 @ ShortCode ?row @ [newline]), db_dup)"
    by (rule create_existing[where f = "''http://example.com/page?y=2''"])
       (simp_all add: create_req_nonempty probe_examples env_ok_simps rq2 db_dup_def)
  have A: "handleCreateShortURL cfg0 (env_ok ''abc'') db1 (create_req ''http://example.com/page?x=1'')
     = (http_Error ''Failed to create short URL'' 500, db1)"
    using c1 by (simp add: StatusInternalServerError_def)
  have B: "fst (handleCreateShortURL cfg0 (env_ok ''Tq8pWv2Rs'') db1 (create_req ''http://example.com/page?x=1''))
     = Written [] None (''Short URL created: http://localhostTq8pWv2Rs'' @ [newline])"
    using n1 by (simp add: cfg0_def)
  have C: "handleCreateShortURL_part_000 cfg0 (env_ok ''abc'') db1 (create_req ''http://example.com/page?x=1'')
     = (http_Error (json_error ''Failed to create short URL'') 500, db1)"
    using c2 by (simp add: StatusInternalServerError_def)
  have D: "fst (handleCreateShortURL_part_000 cfg0 (env_ok ''Tq8pWv2Rs'') db1 (create_req ''http://example.com/page?x=1''))
     = Written [(''Content-Type'', ''application/json'')] None (json_short_url ''http://localhost/Tq8pWv2Rs'')"
    using n2 by (simp add: cfg0_def)
  have E0: "snd (handleCreateShortURL cfg0 (env_ok ''Tq8pWv2Rs'')
          (snd (handleCreateShortURL cfg0 (env_ok ''Zx3kLm9Qa'') db_dup (create_req ''http://example.com/page?x=1'')))
          (create_req ''http://example.com/page?y=2'')) = db_dup"
    by (simp add: d1 d2)
  have E: "length (filter (\<lambda>x. LongURL x = ''http://example.com/page'')
        (rows (snd (handleCreateShortURL cfg0 (env_ok ''Tq8pWv2Rs'')
          (snd (handleCreateShortURL cfg0 (env_ok ''Zx3kLm9Qa'') db_dup (create_req ''http://example.com/page?x=1'')))
          (create_req ''http://example.com/page?y=2''))))) = 2"
    unfolding E0 by (simp add: db_dup_def)
  show ?thesis using A B C D E by blast
qed



text \<open>
  C4, as the code has it. A create request that reaches the datastore (a non-empty
  \<open>long_url\<close>, a resolved URL, a generated code) is answered with status 200 both when
  the lookup finds a row and when the insert succeeds. The handler of the second source
  file answers with \<open>Content-Type: application/json\<close> and the body
  \<open>{"short_url": "{domain}/{code}"}\<close>; the handler of \<open>main.go\<close> answers with one line of
  plain text that ends with the code.
\<close>

theorem create_response_format:
  assumes nonempty: "FormValue_long_url r \<noteq> []"
    and f: "getFinalURL (client_Head (Transport e)) (FormValue_long_url r) = Inr f"
    and g: "MustGenerate e = Some c"
  shows "(select_short_code_by_long_url (queryFails e) db (removeQueryParams f) = Inr existing \<longrightarrow>
        fst (handleCreateShortURL_part_000 cfg e db r)
          = Written [(''Content-Type'', ''application/json'')] None
              (json_short_url (domain cfg @ ''/'' @ existing))
        \<and> status (fst (handleCreateShortURL_part_000 cfg e db r)) = Some 200
        \<and> status (fst (handleCreateShortURL cfg e db r)) = Some 200
        \<and> (\<exists>x. fst (handleCreateShortURL cfg e db r)
              = Written [] None (''Short URL already exists: '' @ x @ existing @ [newline])))
    \<and> (select_short_code_by_long_url (queryFails e) db (removeQueryParams f) = Inl ErrNoRows
        \<and> insert_row (execFails e) db c (removeQueryParams f) = Inr db' \<longrightarrow>
        fst (handleCreateShortURL_part_000 cfg e db r)
          = Written [(''Content-Type'', ''application/json'')] None
              (json_short_url (domain cfg @ ''/'' @ c))
        \<and> status (fst (handleCreateShortURL_part_000 cfg e db r)) = Some 200
        \<and> status (fst (handleCreateShortURL cfg e db r)) = Some 200
        \<and> (\<exists>x. fst (handleCreateShortURL cfg e db r)
              = Written [] None (''Short URL created: '' @ x @ c @ [newline])))"
  using assms
  by (auto simp: handleCreateShortURL_def handleCreateShortURL_part_000_def Let_def
      generateShortCode_def StatusOK_def)

theorem create_response_format_witness:
  "select_short_code_by_long_url (queryFails (env_ok ''Tq8pWv2Rs'')) db1 (removeQueryParams ''http://example.com/?ref=1'') = Inr ''abc''
   \<and> fst (handleCreateShortURL_part_000 cfg0 (env_ok ''Tq8pWv2Rs'') db1 (create_req ''http://example.com/?ref=1''))
      = Written [(''Content-Type'', ''application/json'')] None (json_short_url ''http://localhost/abc'')
   \<and> status (fst (handleCreateShortURL cfg0 (env_ok ''Tq8pWv2Rs'') db1 (create_req ''http://example.com/?ref=1''))) = Some 200
   \<and> insert_row (execFails (env_ok ''Tq8pWv2Rs'')) db1 ''Tq8pWv2Rs'' (removeQueryParams ''http://example.com/page?x=1'')
      = Inr \<lparr>rows = rows db1 @ [\<lparr>ID = 2, ShortCode = ''Tq8pWv2Rs'', LongURL = ''http://example.com/page''\<rparr>], nextID = 3\<rparr>
   \<and> fst (handleCreateShortURL_part_000 cfg0 (env_ok ''Tq8pWv2Rs'') db1 (create_req ''http://example.com/page?x=1''))
      = Written [(''Content-Type'', ''application/json'')] None (json_short_url ''http://localhost/Tq8pWv2Rs'')"
proof -
  have rq: "removeQueryParams ''http://example.com/?ref=1'' = ''http://example.com/''" by code_simp
  have s1: "select_short_code_by_long_url (queryFails (env_ok ''Tq8pWv2Rs'')) db1
      (removeQueryParams ''http://example.com/?ref=1'') = Inr ''abc''"
    by (simp add: rq select_short_code_by_long_url_def env_ok_def db1_def)
  have s2: "select_short_code_by_long_url (queryFails (env_ok ''Tq8pWv2Rs'')) db1
      (removeQueryParams ''http://example.com/page?x=1'') = Inl ErrNoRows"
    by (simp add: rq1 select_short_code_by_long_url_def env_ok_def db1_def)
  have i2: "insert_row (execFails (env_ok ''Tq8pWv2Rs'')) db1 ''Tq8pWv2Rs''
      (removeQueryParams ''http://example.com/page?x=1'')
      = Inr \<lparr>rows = rows db1 @ [\<lparr>ID = 2, ShortCode = ''Tq8pWv2Rs'', LongURL = ''http://example.com/page''\<rparr>], nextID = 3\<rparr>"
    by (simp add: rq1 insert_row_def env_ok_def db1_def)
  have ne: "FormValue_long_url (create_req ''http://example.com/?ref=1'') \<noteq> []"
    "FormValue_long_url (create_req ''http://example.com/page?x=1'') \<noteq> []"
    by (simp_all add: create_req_def)
  from create_response_format[where cfg = cfg0 and e = "env_ok ''Tq8pWv2Rs''" and db = db1
        and r = "create_req ''http://example.com/?ref=1''" and existing = "''abc''",
      OF ne(1) probe_examples(5) env_ok_simps(1)]
    create_response_format[where cfg = cfg0 and e = "env_ok ''Tq8pWv2Rs''" and db = db1
        and r = "create_req ''http://example.com/page?x=1''"
        and db' = "\<lparr>rows = rows db1 @ [\<lparr>ID = 2, ShortCode = ''Tq8pWv2Rs'', LongURL = ''http://example.com/page''\<rparr>], nextID = 3\<rparr>",
      OF ne(2) probe_examples(1) env_ok_simps(1)]
    s1 s2 i2
  show ?thesis by (simp add: cfg0_def)
qed

text \<open>
  C4 as stated fails for \<open>main.go\<close>: the answer to a successful insert is a line of
  text, with no content type set, in which the domain and the code are not separated by
  a slash.
\<close>

theorem create_response_main_go_counterexample:
  "fst (handleCreateShortURL cfg0 (env_ok ''Zx3kLm9Qa'') emptyDB (create_req ''http://example.com/page''))
     = Written [] None (''Short URL created: http://localhostZx3kLm9Qa'' @ [newline])
   \<and> \<not> sublist ''http://localhost/Zx3kLm9Qa'' (''Short URL created: http://localhostZx3kLm9Qa'' @ [newline])"
proof -
  have rq: "removeQueryParams ''http://example.com/page'' = ''http://example.com/page''" by code_simp
  have "handleCreateShortURL cfg0 (env_ok ''Zx3kLm9Qa'') emptyDB (create_req ''http://example.com/page'')
      = (Written [] None (''Short URL created: '' @ domain cfg0 @ ''Zx3kLm9Qa'' @ [newline]),
        \<lparr>rows = rows emptyDB @ [\<lparr>ID = nextID emptyDB, ShortCode = ''Zx3kLm9Qa'',
            LongURL = removeQueryParams ''http://example.com/page''\<rparr>],
         nextID = nextID emptyDB + 1\<rparr>)"
    by (rule create_new)
       (simp_all add: create_req_nonempty probe_examples env_ok_simps rows_emptyDB)
  then have 1: "fst (handleCreateShortURL cfg0 (env_ok ''Zx3kLm9Qa'') emptyDB (create_req ''http://example.com/page''))
     = Written [] None (''Short URL created: http://localhostZx3kLm9Qa'' @ [newline])"
    by (simp add: cfg0_def)
  have 2: "\<not> sublist ''http://localhost/Zx3kLm9Qa'' (''Short URL created: http://localhostZx3kLm9Qa'' @ [newline])"
    by code_simp
  show ?thesis using 1 2 by blast
qed

end
